theory Spec2Isabelle
  imports
    Complex_Main
    "HOL-Library.Char_ord"
    "HOL-Library.List_Lexorder"
    "HOL-Library.Product_Lexorder"
    "HOL-Library.AList"
    "HOL-Library.Log_Nat"
    "HOL-Library.Sublist"
begin

section \<open>Python values\<close>

text \<open>
  The three scripts of the repository are Python. Their values are modelled as follows.
  A \<open>str\<close> is a \<^typ>\<open>string\<close>; its order is the lexicographic order on characters,
  which is what Python's comparison of strings and SQLite's comparison of text compute.
  An \<open>int\<close> is an \<^typ>\<open>int\<close>. A \<open>float\<close> is an IEEE-754 double: a finite double is
  the rational number it stands for (the sign of a zero is not kept: no function below
  can tell the two zeros apart), and the two infinities and the NaN are constructors of
  their own. A dictionary is an association list with distinct keys, in insertion order.
\<close>

datatype pyfloat = Finite rat | PosInf | NegInf | NaN

datatype pyval =
    PNone
  | PBool bool
  | PInt int
  | PFloat pyfloat
  | PStr string
  | PBytes string
  | PList "pyval list"
  | PDict "(string \<times> pyval) list"

text \<open>
  Exceptions are values. \<open>RuntimeError\<close> carries its message; \<open>SystemExit\<close> is what
  \<open>raise SystemExit(msg)\<close> and a failing \<open>argparse\<close> conversion end in; the others
  are the built-in exceptions that the code can meet and does not raise itself.
\<close>

datatype error =
    RuntimeError string
  | SystemExit string
  | ArgumentTypeError string
  | JSONDecodeError
  | ValueError
  | TypeError
  | AttributeError
  | OverflowError
  | URLErrorExc string
  | OtherError string

subsection \<open>Decimal numerals: \<open>str(n)\<close> of a natural number\<close>

definition digit_char :: "nat \<Rightarrow> char" where
  "digit_char d = char_of (48 + d)"

fun show_nat :: "nat \<Rightarrow> string" where
  "show_nat n = (if n < 10 then [digit_char n] else show_nat (n div 10) @ [digit_char (n mod 10)])"

declare show_nat.simps [simp del]

definition show_int :: "int \<Rightarrow> string" where
  "show_int i = (if i < 0 then CHR ''-'' # show_nat (nat (- i)) else show_nat (nat i))"

subsection \<open>Truth values, \<open>dict.get\<close> and \<open>x or default\<close>\<close>

fun truthy :: "pyval \<Rightarrow> bool" where
  "truthy PNone = False"
| "truthy (PBool b) = b"
| "truthy (PInt i) = (i \<noteq> 0)"
| "truthy (PFloat f) = (f \<noteq> Finite 0)"
| "truthy (PStr s) = (s \<noteq> [])"
| "truthy (PBytes s) = (s \<noteq> [])"
| "truthy (PList xs) = (xs \<noteq> [])"
| "truthy (PDict kvs) = (kvs \<noteq> [])"

definition py_or :: "pyval \<Rightarrow> pyval \<Rightarrow> pyval" where
  "py_or x d = (if truthy x then x else d)"

text \<open>\<open>v.get(k)\<close>: the value under \<open>k\<close> or \<open>None\<close> on a dictionary, an
  \<open>AttributeError\<close> on every other value.\<close>

fun py_get :: "pyval \<Rightarrow> string \<Rightarrow> error + pyval" where
  "py_get (PDict kvs) k = Inr (case map_of kvs k of None \<Rightarrow> PNone | Some v \<Rightarrow> v)"
| "py_get _ k = Inl AttributeError"

fun is_dict :: "pyval \<Rightarrow> bool" where
  "is_dict (PDict kvs) = True"
| "is_dict _ = False"

section \<open>Remote calls\<close>

text \<open>
  Both provisioning scripts talk to the guard service through \<open>urllib\<close>. A request is
  the record of what is sent. The service and the network are a function from the
  requests sent so far and the next request to what \<open>urlopen\<close> does with it: an
  answer with its body, an \<open>HTTPError\<close> (a status that is not a success, with its
  body), a \<open>URLError\<close>, or any other exception (a time-out while the body is read, a
  body that is not UTF-8). A computation takes the list of requests sent so far and
  returns its result, an exception or a value, with the extended list.

  \<open>json.loads\<close> and \<open>int\<close> on a string belong to Python, not to the repository: they
  are parameters \<open>json_loads\<close> and \<open>py_int\<close>, with \<open>None\<close> for the
  \<open>JSONDecodeError\<close> and the \<open>ValueError\<close> they raise.
\<close>

record request =
  req_method :: string
  req_url :: string
  req_headers :: "(string \<times> string) list"
  req_payload :: "pyval option"

datatype http_reply =
    Response string
  | HTTPError nat string
  | URLError string
  | Failure string

type_synonym server = "request list \<Rightarrow> request \<Rightarrow> http_reply"

type_synonym 'a io = "request list \<Rightarrow> (error + 'a) \<times> request list"

definition io_return :: "'a \<Rightarrow> 'a io" where
  "io_return x tr = (Inr x, tr)"

definition io_raise :: "error \<Rightarrow> 'a io" where
  "io_raise e tr = (Inl e, tr)"

definition io_bind :: "'a io \<Rightarrow> ('a \<Rightarrow> 'b io) \<Rightarrow> 'b io" where
  "io_bind m f tr = (case m tr of (Inl e, tr') \<Rightarrow> (Inl e, tr') | (Inr x, tr') \<Rightarrow> f x tr')"

text \<open>\<open>s.rstrip("/")\<close>\<close>

definition rstrip_slash :: "string \<Rightarrow> string" where
  "rstrip_slash s = rev (dropWhile (\<lambda>c. c = CHR ''/'') (rev s))"

section \<open>The strict-budget bootstrap script\<close>

text \<open>\<open>_parse_positive_int\<close>, the \<open>argparse\<close> type of \<open>--limit\<close> and \<open>--topup\<close>.\<close>

definition parse_positive_int :: "(string \<Rightarrow> int option) \<Rightarrow> string \<Rightarrow> error + int" where
  "parse_positive_int py_int v =
     (case py_int v of
        None \<Rightarrow> Inl (ArgumentTypeError ''must be an integer'')
      | Some parsed \<Rightarrow>
          if parsed \<le> 0 then Inl (ArgumentTypeError ''must be > 0'') else Inr parsed)"

text \<open>\<open>_extract_detail\<close>\<close>

definition extract_detail :: "(string \<Rightarrow> pyval option) \<Rightarrow> string \<Rightarrow> string" where
  "extract_detail json_loads raw =
     (if raw = [] then ''request failed''
      else case json_loads raw of
          None \<Rightarrow> raw
        | Some data \<Rightarrow>
            (case data of
               PDict kvs \<Rightarrow> (case map_of kvs ''detail'' of Some (PStr d) \<Rightarrow> d | _ \<Rightarrow> raw)
             | _ \<Rightarrow> raw))"

text \<open>
  \<open>_request_json\<close>. The request is sent (and recorded) whatever the answer is. An
  \<open>HTTPError\<close> and a \<open>URLError\<close> become a \<open>RuntimeError\<close>; any other exception
  of the transport, and the \<open>JSONDecodeError\<close> of \<open>json.loads\<close>, pass through.
\<close>

definition request_json ::
  "(string \<Rightarrow> pyval option) \<Rightarrow> server \<Rightarrow> string \<Rightarrow> string \<Rightarrow> (string \<times> string) list \<Rightarrow>
     pyval option \<Rightarrow> pyval io" where
  "request_json json_loads srv method url headers payload tr =
     (let req = \<lparr>req_method = method, req_url = url, req_headers = headers,
                 req_payload = payload\<rparr>;
          tr' = tr @ [req]
      in case srv tr req of
           HTTPError code err_body \<Rightarrow>
             (Inl (RuntimeError (''HTTP '' @ show_nat code @ '': '' @
                 extract_detail json_loads err_body)), tr')
         | URLError reason \<Rightarrow> (Inl (RuntimeError (''Request failed: '' @ reason)), tr')
         | Failure msg \<Rightarrow> (Inl (OtherError msg), tr')
         | Response raw \<Rightarrow>
             if raw = [] then (Inr (PDict []), tr')
             else (case json_loads raw of
                 None \<Rightarrow> (Inl JSONDecodeError, tr')
               | Some parsed \<Rightarrow>
                   if \<not> is_dict parsed
                   then (Inl (RuntimeError ''Expected JSON object response''), tr')
                   else (Inr parsed, tr')))"

text \<open>\<open>_headers\<close>\<close>

definition headers :: "string option \<Rightarrow> (string \<times> string) list" where
  "headers api_key =
     [(''Accept'', ''application/json''), (''Content-Type'', ''application/json'')] @
     (case api_key of
        None \<Rightarrow> []
      | Some k \<Rightarrow> if k \<noteq> [] then [(''x-api-key'', k)] else [])"

text \<open>
  The command line of the script, as \<open>_build_parser\<close> declares it: \<open>--limit\<close> is
  required, and \<open>--limit\<close> and \<open>--topup\<close> are converted by \<open>_parse_positive_int\<close>.
  \<open>argparse\<close> converts the options in the order of the command line and ends the
  process at the first conversion that raises, reporting
  "argument \<open>option\<close>: \<open>message of the ArgumentTypeError\<close>"; only after all
  options are read does it report a required option that is missing. The record holds
  the texts of the options and which of \<open>--limit\<close> and \<open>--topup\<close> stands first.
\<close>

record bootstrap_args =
  arg_base_url :: string
  arg_name :: string
  arg_limit :: "string option"
  arg_topup :: "string option"
  arg_api_key :: "string option"
  arg_skip_health_check :: bool
  arg_create_run :: bool
  arg_json :: bool
  arg_topup_first :: bool

definition arg_error :: "string \<Rightarrow> error \<Rightarrow> error" where
  "arg_error opt e =
     (case e of
        ArgumentTypeError msg \<Rightarrow> SystemExit (''argument '' @ opt @ '': '' @ msg)
      | _ \<Rightarrow> e)"

definition convert_opt :: "(string \<Rightarrow> int option) \<Rightarrow> string \<Rightarrow> string option \<Rightarrow> error + int option" where
  "convert_opt py_int opt v =
     (case v of
        None \<Rightarrow> Inr None
      | Some s \<Rightarrow>
          (case parse_positive_int py_int s of
             Inl e \<Rightarrow> Inl (arg_error opt e)
           | Inr n \<Rightarrow> Inr (Some n)))"

definition parse_args :: "(string \<Rightarrow> int option) \<Rightarrow> bootstrap_args \<Rightarrow> error + int \<times> int option" where
  "parse_args py_int args =
     (case (convert_opt py_int ''--limit'' (arg_limit args),
            convert_opt py_int ''--topup'' (arg_topup args)) of
        (Inl e1, Inl e2) \<Rightarrow> Inl (if arg_topup_first args then e2 else e1)
      | (Inl e1, Inr t) \<Rightarrow> Inl e1
      | (Inr l, Inl e2) \<Rightarrow> Inl e2
      | (Inr None, Inr t) \<Rightarrow> Inl (SystemExit ''the following arguments are required: --limit'')
      | (Inr (Some limit), Inr t) \<Rightarrow> Inr (limit, t))"

text \<open>
  \<open>main\<close>, up to the dictionary \<open>output\<close> that it prints (as JSON or as lines).
\<close>

definition health_check :: "(string \<Rightarrow> pyval option) \<Rightarrow> server \<Rightarrow> string \<Rightarrow> unit io" where
  "health_check json_loads srv base_url =
     io_bind
       (request_json json_loads srv ''GET'' (base_url @ ''/health'')
          [(''Accept'', ''application/json'')] None)
       (\<lambda>health.
          if py_get health ''status'' \<noteq> Inr (PStr ''ok'')
          then io_raise (RuntimeError ''Health check failed: /health did not return status=ok'')
          else io_return ())"

definition provision ::
  "(string \<Rightarrow> pyval option) \<Rightarrow> server \<Rightarrow> bootstrap_args \<Rightarrow> string \<Rightarrow> int \<Rightarrow> int \<Rightarrow> pyval io" where
  "provision json_loads srv args base_url limit topup =
     io_bind
       (request_json json_loads srv ''POST'' (base_url @ ''/v1/agents'')
          (headers (arg_api_key args)) (Some (PDict [(''name'', PStr (arg_name args))])))
       (\<lambda>agent.
          case py_get agent ''agent_id'' of
            Inr (PStr agent_id) \<Rightarrow>
              if agent_id = [] then io_raise (RuntimeError ''Agent creation did not return agent_id'')
              else
                io_bind
                  (request_json json_loads srv ''POST''
                     (base_url @ ''/v1/agents/'' @ agent_id @ ''/budget'')
                     (headers (arg_api_key args))
                     (Some (PDict [(''hard_limit_cents'', PInt limit), (''topup_cents'', PInt topup)])))
                  (\<lambda>budget.
                     io_bind
                       (if arg_create_run args
                        then request_json json_loads srv ''POST''
                               (base_url @ ''/v1/agents/'' @ agent_id @ ''/runs'')
                               (headers (arg_api_key args)) (Some (PDict []))
                        else io_return PNone)
                       (\<lambda>run.
                          io_return
                            (PDict [(''base_url'', PStr base_url), (''agent_id'', PStr agent_id),
                                    (''budget'', budget), (''run'', run)])))
          | _ \<Rightarrow> io_raise (RuntimeError ''Agent creation did not return agent_id''))"

definition main :: "(string \<Rightarrow> pyval option) \<Rightarrow> (string \<Rightarrow> int option) \<Rightarrow> server \<Rightarrow> bootstrap_args \<Rightarrow> pyval io" where
  "main json_loads py_int srv args =
     (case parse_args py_int args of
        Inl e \<Rightarrow> io_raise e
      | Inr (limit, topup_opt) \<Rightarrow>
          (let base_url = rstrip_slash (arg_base_url args);
               topup = (case topup_opt of Some t \<Rightarrow> t | None \<Rightarrow> limit)
           in io_bind
                (if \<not> arg_skip_health_check args then health_check json_loads srv base_url
                 else io_return ())
                (\<lambda>_. provision json_loads srv args base_url limit topup)))"

subsection \<open>Reading the requests of a run\<close>

text \<open>
  The requests that a run of \<open>main\<close> has sent are told apart by method and URL, as the
  service tells them apart: the health check, the creation of an agent, the budget of
  an agent (\<open>/v1/agents/<id>/budget\<close>) and the creation of a run
  (\<open>/v1/agents/<id>/runs\<close>). \<open>call_result\<close> is what \<open>_request_json\<close> returned
  for the request at position \<open>j\<close>.
\<close>

definition health_call :: "string \<Rightarrow> request \<Rightarrow> bool" where
  "health_call base r = (req_method r = ''GET'' \<and> req_url r = base @ ''/health'')"

definition agents_call :: "string \<Rightarrow> request \<Rightarrow> bool" where
  "agents_call base r = (req_method r = ''POST'' \<and> req_url r = base @ ''/v1/agents'')"

definition budget_call :: "string \<Rightarrow> request \<Rightarrow> bool" where
  "budget_call base r =
     (req_method r = ''POST'' \<and> prefix (base @ ''/v1/agents/'') (req_url r) \<and>
      suffix ''/budget'' (req_url r))"

definition runs_call :: "string \<Rightarrow> request \<Rightarrow> bool" where
  "runs_call base r =
     (req_method r = ''POST'' \<and> prefix (base @ ''/v1/agents/'') (req_url r) \<and>
      suffix ''/runs'' (req_url r))"

definition call_result :: "(string \<Rightarrow> pyval option) \<Rightarrow> server \<Rightarrow> request list \<Rightarrow> nat \<Rightarrow> error + pyval" where
  "call_result json_loads srv tr j =
     fst (request_json json_loads srv (req_method (tr ! j)) (req_url (tr ! j))
            (req_headers (tr ! j)) (req_payload (tr ! j)) (take j tr))"

text \<open>
  \<open>send\<close> is the result of \<open>_request_json\<close> for a request after the requests
  \<open>tr\<close>. The four requests that \<open>main\<close> builds have names of their own.
\<close>

definition send :: "(string \<Rightarrow> pyval option) \<Rightarrow> server \<Rightarrow> request \<Rightarrow> request list \<Rightarrow> error + pyval" where
  "send jl srv r tr = fst (request_json jl srv (req_method r) (req_url r) (req_headers r) (req_payload r) tr)"

definition health_request :: "string \<Rightarrow> request" where
  "health_request base = \<lparr>req_method = ''GET'', req_url = base @ ''/health'',
      req_headers = [(''Accept'', ''application/json'')], req_payload = None\<rparr>"

definition agents_request :: "bootstrap_args \<Rightarrow> string \<Rightarrow> request" where
  "agents_request args base = \<lparr>req_method = ''POST'', req_url = base @ ''/v1/agents'',
      req_headers = headers (arg_api_key args),
      req_payload = Some (PDict [(''name'', PStr (arg_name args))])\<rparr>"

definition budget_request :: "bootstrap_args \<Rightarrow> string \<Rightarrow> string \<Rightarrow> int \<Rightarrow> int \<Rightarrow> request" where
  "budget_request args base aid limit topup = \<lparr>req_method = ''POST'',
      req_url = base @ ''/v1/agents/'' @ aid @ ''/budget'',
      req_headers = headers (arg_api_key args),
      req_payload = Some (PDict [(''hard_limit_cents'', PInt limit), (''topup_cents'', PInt topup)])\<rparr>"

definition runs_request :: "bootstrap_args \<Rightarrow> string \<Rightarrow> string \<Rightarrow> request" where
  "runs_request args base aid = \<lparr>req_method = ''POST'',
      req_url = base @ ''/v1/agents/'' @ aid @ ''/runs'',
      req_headers = headers (arg_api_key args),
      req_payload = Some (PDict [])\<rparr>"

text \<open>
  Concrete inputs for the examples: a service that answers the \<open>n\<close>-th request with
  the \<open>n\<close>-th reply of a script (and is unreachable afterwards), a table for
  \<open>json.loads\<close> and \<open>int\<close> (the bodies are abbreviated: the quotes of JSON
  are left out), and a command line.
\<close>

definition scripted :: "http_reply list \<Rightarrow> server" where
  "scripted replies tr r =
     (if length tr < length replies then replies ! length tr else URLError ''unreachable'')"

definition ex_json_loads :: "string \<Rightarrow> pyval option" where
  "ex_json_loads s =
     (if s = ''{status: ok}'' then Some (PDict [(''status'', PStr ''ok'')])
      else if s = ''{status: degraded}'' then Some (PDict [(''status'', PStr ''degraded'')])
      else if s = ''{agent_id: a1}'' then Some (PDict [(''agent_id'', PStr ''a1'')])
      else if s = ''{run_id: r1}'' then Some (PDict [(''run_id'', PStr ''r1'')])
      else if s = ''{run_id: r2}'' then Some (PDict [(''run_id'', PStr ''r2'')])
      else if s = ''{}'' then Some (PDict [])
      else if s = ''[1]'' then Some (PList [PInt 1])
      else None)"

definition ex_py_int :: "string \<Rightarrow> int option" where
  "ex_py_int s = (if s = ''5'' then Some 5 else if s = ''0'' then Some 0 else None)"

definition ex_args :: bootstrap_args where
  "ex_args = \<lparr>arg_base_url = ''http://h/'', arg_name = ''a'', arg_limit = Some ''5'',
      arg_topup = None, arg_api_key = None, arg_skip_health_check = False,
      arg_create_run = True, arg_json = False, arg_topup_first = False\<rparr>"

section \<open>The traffic generator\<close>

text \<open>
  \<open>_http_json\<close>. The \<open>Content-Type\<close> header is sent with a payload only. An empty
  body is \<open>None\<close>, any other body is what \<open>json.loads\<close> makes of it. Only the
  \<open>HTTPError\<close> is turned into a \<open>RuntimeError\<close>; a \<open>URLError\<close> and every
  other exception pass through.
\<close>

definition http_json ::
  "(string \<Rightarrow> pyval option) \<Rightarrow> server \<Rightarrow> string \<Rightarrow> string \<Rightarrow> pyval option \<Rightarrow> pyval io" where
  "http_json json_loads srv method url payload tr =
     (let hdrs = (''Accept'', ''application/json'') #
                 (if payload \<noteq> None then [(''Content-Type'', ''application/json'')] else []);
          req = \<lparr>req_method = method, req_url = url, req_headers = hdrs, req_payload = payload\<rparr>;
          tr' = tr @ [req]
      in case srv tr req of
           Response raw \<Rightarrow>
             if raw = [] then (Inr PNone, tr')
             else (case json_loads raw of
                 None \<Rightarrow> (Inl JSONDecodeError, tr')
               | Some v \<Rightarrow> (Inr v, tr'))
         | HTTPError code raw \<Rightarrow>
             (Inl (RuntimeError (''HTTP '' @ show_nat code @ '' '' @ method @ '' '' @ url @
                 '': '' @ raw)), tr')
         | URLError reason \<Rightarrow> (Inl (URLErrorExc reason), tr')
         | Failure msg \<Rightarrow> (Inl (OtherError msg), tr'))"

text \<open>
  The command line of the generator after \<open>argparse\<close>: an option that was not given
  is \<open>None\<close> and takes the default of its \<open>add_argument\<close>. \<open>time.sleep\<close>
  belongs to Python: it is the parameter \<open>py_sleep\<close>, which gives \<open>None\<close> when the
  call returns after the delay and the exception it raises otherwise (an
  \<open>OverflowError\<close> on a delay that is too large).
\<close>

record traffic_args =
  t_base_url :: "string option"
  t_model :: "string option"
  t_n :: "int option"
  t_max_output_tokens :: "int option"
  t_sleep_seconds :: "pyfloat option"
  t_hard_limit_cents :: "int option"
  t_topup_cents :: "int option"
  t_agent_name :: "string option"
  t_reasoning_effort :: "string option"

definition default :: "'a \<Rightarrow> 'a option \<Rightarrow> 'a" where
  "default d v = (case v of None \<Rightarrow> d | Some x \<Rightarrow> x)"

text \<open>
  A value inside an f-string: a string stands for itself; for every other value the
  text is Python's \<open>str\<close> of it, the parameter \<open>py_str\<close>.
\<close>

definition fmt :: "(pyval \<Rightarrow> string) \<Rightarrow> pyval \<Rightarrow> string" where
  "fmt py_str v = (case v of PStr s \<Rightarrow> s | _ \<Rightarrow> py_str v)"

text \<open>\<open>x.get(k) if isinstance(x, dict) else None\<close>\<close>

definition get_if_dict :: "pyval \<Rightarrow> string \<Rightarrow> pyval" where
  "get_if_dict x k = (case x of PDict kvs \<Rightarrow> (case map_of kvs k of None \<Rightarrow> PNone | Some v \<Rightarrow> v) | _ \<Rightarrow> PNone)"

definition prompt :: "nat \<Rightarrow> string" where
  "prompt i =
     ''Give a concise, correct answer.'' @ [CHR 0x0A] @
     ''Task: Return the first 25 prime numbers as a comma-separated list.'' @ [CHR 0x0A] @
     ''Request number: '' @ show_nat (i + 1) @ [CHR 0x0A]"

definition responses_payload :: "traffic_args \<Rightarrow> nat \<Rightarrow> pyval" where
  "responses_payload args i =
     PDict ([(''model'', PStr (default ''gpt-5.2-pro'' (t_model args))),
             (''input'', PStr (prompt i)),
             (''max_output_tokens'', PInt (default 128 (t_max_output_tokens args)))] @
            (case t_reasoning_effort args of
               None \<Rightarrow> []
             | Some e \<Rightarrow> if e \<noteq> [] then [(''reasoning'', PDict [(''effort'', PStr e)])] else []))"

text \<open>\<open>x > 0\<close> on a float, and the delay of the command line.\<close>

fun float_pos :: "pyfloat \<Rightarrow> bool" where
  "float_pos (Finite q) = (0 < q)"
| "float_pos PosInf = True"
| "float_pos NegInf = False"
| "float_pos NaN = False"

definition delay :: "traffic_args \<Rightarrow> pyfloat" where
  "delay args = default (Finite (1 / 2)) (t_sleep_seconds args)"

text \<open>
  \<open>if float(args.sleep_seconds) > 0: time.sleep(float(args.sleep_seconds))\<close>
\<close>

definition sleep_step :: "(pyfloat \<Rightarrow> error option) \<Rightarrow> traffic_args \<Rightarrow> unit io" where
  "sleep_step py_sleep args =
     (if float_pos (delay args)
      then (case py_sleep (delay args) of None \<Rightarrow> io_return () | Some e \<Rightarrow> io_raise e)
      else io_return ())"

text \<open>The body of the loop, for the index \<open>i\<close> of \<open>range(n)\<close>.\<close>

definition one_request ::
  "(string \<Rightarrow> pyval option) \<Rightarrow> (pyval \<Rightarrow> string) \<Rightarrow> (pyfloat \<Rightarrow> error option) \<Rightarrow> server \<Rightarrow>
     traffic_args \<Rightarrow> string \<Rightarrow> pyval \<Rightarrow> nat \<Rightarrow> unit io" where
  "one_request json_loads py_str py_sleep srv args base agent_id i =
     io_bind
       (http_json json_loads srv ''POST''
          (base @ ''/v1/agents/'' @ fmt py_str agent_id @ ''/runs'') (Some (PDict [])))
       (\<lambda>run.
          let run_id = get_if_dict run ''run_id'' in
          if \<not> truthy run_id
          then io_raise (RuntimeError (''Unexpected /v1/agents/{agent_id}/runs response: '' @
                  fmt py_str run))
          else
            io_bind
              (http_json json_loads srv ''POST''
                 (base @ ''/v1/agents/'' @ fmt py_str agent_id @ ''/runs/'' @ fmt py_str run_id @
                    ''/openai/responses'')
                 (Some (responses_payload args i)))
              (\<lambda>_. sleep_step py_sleep args))"

text \<open>\<open>for i in range(n): body\<close>, over the list of the indices.\<close>

fun for_range :: "(nat \<Rightarrow> unit io) \<Rightarrow> nat list \<Rightarrow> unit io" where
  "for_range body [] = io_return ()"
| "for_range body (i # rest) = io_bind (body i) (\<lambda>_. for_range body rest)"

definition traffic_main ::
  "(string \<Rightarrow> pyval option) \<Rightarrow> (pyval \<Rightarrow> string) \<Rightarrow> (pyfloat \<Rightarrow> error option) \<Rightarrow> server \<Rightarrow>
     traffic_args \<Rightarrow> unit io" where
  "traffic_main json_loads py_str py_sleep srv args =
     (let base = rstrip_slash (default ''http://localhost:8787'' (t_base_url args));
          n = default 1 (t_n args);
          hard_limit_cents = default 500 (t_hard_limit_cents args);
          topup_cents = default 500 (t_topup_cents args)
      in if n \<le> 0 then io_raise (SystemExit ''--n must be > 0'')
         else if default 128 (t_max_output_tokens args) \<le> 0
           then io_raise (SystemExit ''--max-output-tokens must be > 0'')
         else if hard_limit_cents \<le> 0
           then io_raise (SystemExit ''--hard-limit-cents must be > 0'')
         else if topup_cents < 0
           then io_raise (SystemExit ''--topup-cents must be >= 0'')
         else
           io_bind
             (http_json json_loads srv ''POST'' (base @ ''/v1/agents'')
                (Some (PDict [(''name'', PStr (default ''traffic-test'' (t_agent_name args)))])))
             (\<lambda>agent.
                let agent_id = get_if_dict agent ''agent_id'' in
                if \<not> truthy agent_id
                then io_raise (RuntimeError (''Unexpected /v1/agents response: '' @ fmt py_str agent))
                else
                  io_bind
                    (http_json json_loads srv ''POST''
                       (base @ ''/v1/agents/'' @ fmt py_str agent_id @ ''/budget'')
                       (Some (PDict [(''hard_limit_cents'', PInt hard_limit_cents),
                                     (''topup_cents'', PInt topup_cents)])))
                    (\<lambda>_. for_range (one_request json_loads py_str py_sleep srv args base agent_id)
                            [0..<nat n])))"

text \<open>
  Reading the requests of the generator: the metered request of a run is told by its
  URL, like the others. \<open>http_results\<close> replays a list of requests after the requests
  \<open>pre\<close> and gives what \<open>_http_json\<close> returned for each. \<open>paired\<close> says that a
  list of requests alternates between two kinds, starting with the first kind (and
  may stop after a request of the first kind).
\<close>

definition responses_call :: "string \<Rightarrow> request \<Rightarrow> bool" where
  "responses_call base r =
     (req_method r = ''POST'' \<and> prefix (base @ ''/v1/agents/'') (req_url r) \<and>
      suffix ''/openai/responses'' (req_url r))"

fun http_results :: "(string \<Rightarrow> pyval option) \<Rightarrow> server \<Rightarrow> request list \<Rightarrow> request list \<Rightarrow> (error + pyval) list" where
  "http_results json_loads srv pre [] = []"
| "http_results json_loads srv pre (r # rs) =
     fst (http_json json_loads srv (req_method r) (req_url r) (req_payload r) pre) #
     http_results json_loads srv (pre @ [r]) rs"

fun paired :: "('a \<Rightarrow> bool) \<Rightarrow> ('a \<Rightarrow> bool) \<Rightarrow> 'a list \<Rightarrow> bool" where
  "paired A B [] = True"
| "paired A B [a] = (A a \<and> \<not> B a)"
| "paired A B (a # b # rest) = (A a \<and> \<not> B a \<and> B b \<and> \<not> A b \<and> paired A B rest)"

definition t_request :: "string \<Rightarrow> string \<Rightarrow> pyval \<Rightarrow> request" where
  "t_request method url payload =
     \<lparr>req_method = method, req_url = url,
      req_headers = [(''Accept'', ''application/json''), (''Content-Type'', ''application/json'')],
      req_payload = Some payload\<rparr>"

text \<open>The requests that the generator builds.\<close>

definition run_req :: "string \<Rightarrow> string \<Rightarrow> request" where
  "run_req base aid = t_request ''POST'' (base @ ''/v1/agents/'' @ aid @ ''/runs'') (PDict [])"

definition resp_req :: "traffic_args \<Rightarrow> string \<Rightarrow> string \<Rightarrow> string \<Rightarrow> nat \<Rightarrow> request" where
  "resp_req args base aid rid i =
     t_request ''POST'' (base @ ''/v1/agents/'' @ aid @ ''/runs/'' @ rid @ ''/openai/responses'')
       (responses_payload args i)"

definition t_agents_req :: "traffic_args \<Rightarrow> string \<Rightarrow> request" where
  "t_agents_req args base =
     t_request ''POST'' (base @ ''/v1/agents'')
       (PDict [(''name'', PStr (default ''traffic-test'' (t_agent_name args)))])"

definition t_budget_req :: "traffic_args \<Rightarrow> string \<Rightarrow> string \<Rightarrow> request" where
  "t_budget_req args base aid =
     t_request ''POST'' (base @ ''/v1/agents/'' @ aid @ ''/budget'')
       (PDict [(''hard_limit_cents'', PInt (default 500 (t_hard_limit_cents args))),
               (''topup_cents'', PInt (default 500 (t_topup_cents args)))])"

definition t_base :: "traffic_args \<Rightarrow> string" where
  "t_base args = rstrip_slash (default ''http://localhost:8787'' (t_base_url args))"

text \<open>The four checks of the command line, taken together.\<close>

definition valid_args :: "traffic_args \<Rightarrow> bool" where
  "valid_args args =
     (0 < default 1 (t_n args) \<and> 0 < default 128 (t_max_output_tokens args) \<and>
      0 < default 500 (t_hard_limit_cents args) \<and> 0 \<le> default 500 (t_topup_cents args))"

text \<open>
  \<open>loop_trace\<close> reads the requests \<open>reqs\<close> of the loop, sent after the requests
  \<open>pre\<close>, against the indices \<open>ixs\<close> that the loop still has to go through: they
  come in pairs, one pair for each index; the first of a pair is the creation of a run
  for the agent; the second is there only if the service has answered the first with a
  \<open>run_id\<close> that is not empty, and is then the metered request of the index under
  that very run.
\<close>

fun loop_trace ::
  "(string \<Rightarrow> pyval option) \<Rightarrow> (pyval \<Rightarrow> string) \<Rightarrow> server \<Rightarrow> traffic_args \<Rightarrow> string \<Rightarrow> string \<Rightarrow>
     request list \<Rightarrow> nat list \<Rightarrow> request list \<Rightarrow> bool" where
  "loop_trace jl ps srv args base aid pre ixs [] = True"
| "loop_trace jl ps srv args base aid pre [] (r # rs) = False"
| "loop_trace jl ps srv args base aid pre (i # ixs) [r] = (r = run_req base aid)"
| "loop_trace jl ps srv args base aid pre (i # ixs) (r # p # rest) =
     (r = run_req base aid \<and>
      (case fst (http_json jl srv ''POST'' (req_url r) (req_payload r) pre) of
         Inl e \<Rightarrow> False
       | Inr run \<Rightarrow>
           truthy (get_if_dict run ''run_id'') \<and>
           p = resp_req args base aid (fmt ps (get_if_dict run ''run_id'')) i) \<and>
      loop_trace jl ps srv args base aid (pre @ [r, p]) ixs rest)"

text \<open>
  Why a run stops after the last request it has sent. \<open>sleep_error\<close> is the exception
  of the delay, if any. \<open>stop_error\<close> looks at the last one of the requests \<open>reqs\<close>
  sent after \<open>pre\<close>, and at what \<open>_http_json\<close> returned for it: the exception of
  the request; or, for an answer to the creation of an agent or of a run that has no
  identifier, the \<open>RuntimeError\<close> about the unexpected response; or, after a metered
  request that was answered, the exception of the delay. \<open>outcome\<close> is how a run ends
  that stops for this reason, or for none.
\<close>

definition sleep_error :: "(pyfloat \<Rightarrow> error option) \<Rightarrow> traffic_args \<Rightarrow> error option" where
  "sleep_error py_sleep args = (if float_pos (delay args) then py_sleep (delay args) else None)"

definition stop_error ::
  "(string \<Rightarrow> pyval option) \<Rightarrow> (pyval \<Rightarrow> string) \<Rightarrow> (pyfloat \<Rightarrow> error option) \<Rightarrow> server \<Rightarrow>
     traffic_args \<Rightarrow> string \<Rightarrow> request list \<Rightarrow> request list \<Rightarrow> error option" where
  "stop_error jl ps py_sleep srv args base pre reqs =
     (if reqs = [] then None
      else case last (http_results jl srv pre reqs) of
          Inl e \<Rightarrow> Some e
        | Inr v \<Rightarrow>
            if agents_call base (last reqs) \<and> \<not> truthy (get_if_dict v ''agent_id'')
            then Some (RuntimeError (''Unexpected /v1/agents response: '' @ fmt ps v))
            else if runs_call base (last reqs) \<and> \<not> truthy (get_if_dict v ''run_id'')
            then Some (RuntimeError (''Unexpected /v1/agents/{agent_id}/runs response: '' @ fmt ps v))
            else if responses_call base (last reqs) then sleep_error py_sleep args
            else None)"

definition outcome :: "error option \<Rightarrow> error + unit" where
  "outcome e = (case e of None \<Rightarrow> Inr () | Some x \<Rightarrow> Inl x)"

text \<open>What holds of the requests \<open>new\<close> that the loop over \<open>ixs\<close> sends after \<open>tr\<close>.\<close>

definition loop_inv ::
  "(string \<Rightarrow> pyval option) \<Rightarrow> (pyval \<Rightarrow> string) \<Rightarrow> (pyfloat \<Rightarrow> error option) \<Rightarrow> server \<Rightarrow> string \<Rightarrow>
     string \<Rightarrow> traffic_args \<Rightarrow> request list \<Rightarrow> nat list \<Rightarrow> error + unit \<Rightarrow> request list \<Rightarrow> bool" where
  "loop_inv jl ps py_sleep srv base aid args tr ixs res new =
     (paired (runs_call base) (responses_call base) new \<and>
      length (filter (responses_call base) new) \<le> length ixs \<and>
      map req_payload (filter (responses_call base) new) =
        map (\<lambda>i. Some (responses_payload args i))
          (take (length (filter (responses_call base) new)) ixs) \<and>
      (res = Inr () \<longrightarrow> length (filter (runs_call base) new) = length ixs \<and>
           length (filter (responses_call base) new) = length ixs) \<and>
      list_all (\<lambda>x. \<not> isl x) (butlast (http_results jl srv tr new)) \<and>
      (\<not> list_all (\<lambda>x. \<not> isl x) (http_results jl srv tr new) \<longrightarrow> isl res) \<and>
      loop_trace jl ps srv args base aid tr ixs new \<and>
      (sleep_error py_sleep args \<noteq> None \<longrightarrow> length (filter (responses_call base) new) \<le> 1) \<and>
      (ixs = [] \<longrightarrow> new = [] \<and> res = Inr ()) \<and>
      (ixs \<noteq> [] \<longrightarrow> new \<noteq> [] \<and>
         res = outcome (stop_error jl ps py_sleep srv args base tr new)))"

text \<open>Concrete inputs for the examples of the traffic generator.\<close>

definition ex_py_str :: "pyval \<Rightarrow> string" where
  "ex_py_str v = ''<value>''"

definition ex_py_sleep :: "pyfloat \<Rightarrow> error option" where
  "ex_py_sleep d =
     (case d of
        Finite q \<Rightarrow> if q < 0 then Some ValueError
                    else if 9223372036 < q then Some OverflowError else None
      | PosInf \<Rightarrow> Some OverflowError
      | NegInf \<Rightarrow> Some ValueError
      | NaN \<Rightarrow> Some ValueError)"

definition ex_traffic_args :: "int \<Rightarrow> int option \<Rightarrow> traffic_args" where
  "ex_traffic_args n topup =
     \<lparr>t_base_url = Some ''http://h'', t_model = None, t_n = Some n, t_max_output_tokens = None,
      t_sleep_seconds = None, t_hard_limit_cents = Some 700, t_topup_cents = topup, t_agent_name = None,
      t_reasoning_effort = None\<rparr>"

section \<open>Python floats\<close>

text \<open>
  The reconciliation script computes with \<open>float\<close>. The arithmetic of IEEE-754
  doubles is written out on the rationals: \<open>rne\<close> rounds a rational to the nearest
  integer, a tie to the even one (this is also Python 3's \<open>round\<close> of a float);
  \<open>expo\<close> is the binary exponent of a rational that is not zero
  (\<open>2^e \<le> |x| < 2^(e+1)\<close>); \<open>fl\<close> rounds a rational to the nearest number with a
  significand of 53 bits, a tie to the even significand, with the fixed spacing
  \<open>2^-1074\<close> below \<open>2^-1022\<close>; \<open>to_double\<close> is the double that an exact result
  is rounded to, an infinity from \<open>2^1024\<close> on.
\<close>

definition rne :: "rat \<Rightarrow> int" where
  "rne x =
     (let f = \<lfloor>x\<rfloor>; d = x - of_int f
      in if d < 1 / 2 then f else if 1 / 2 < d then f + 1 else if even f then f else f + 1)"

definition expo :: "rat \<Rightarrow> int" where
  "expo x =
     (if 1 \<le> \<bar>x\<bar> then bitlen \<lfloor>\<bar>x\<bar>\<rfloor> - 1 else - bitlen (\<lceil>1 / \<bar>x\<bar>\<rceil> - 1))"

definition fl :: "rat \<Rightarrow> rat" where
  "fl x =
     (if x = 0 then 0
      else let e = max (expo x) (- 1022)
           in of_int (rne (x * 2 powi (52 - e))) * 2 powi (e - 52))"

definition to_double :: "rat \<Rightarrow> pyfloat" where
  "to_double x =
     (let y = fl x
      in if 2 ^ 1024 \<le> y then PosInf else if y \<le> - (2 ^ 1024) then NegInf else Finite y)"

text \<open>The sign of a float, for the product with an infinity.\<close>

fun fsign :: "pyfloat \<Rightarrow> int" where
  "fsign (Finite x) = sgn \<lfloor>x\<rfloor> + (if x \<noteq> 0 \<and> \<lfloor>x\<rfloor> = 0 then 1 else 0)"
| "fsign PosInf = 1"
| "fsign NegInf = - 1"
| "fsign NaN = 0"

text \<open>\<open>x * y\<close> on floats.\<close>

fun fmul :: "pyfloat \<Rightarrow> pyfloat \<Rightarrow> pyfloat" where
  "fmul NaN y = NaN"
| "fmul x NaN = NaN"
| "fmul (Finite a) (Finite b) = to_double (a * b)"
| "fmul x y =
     (if fsign x * fsign y = 0 then NaN else if 0 < fsign x * fsign y then PosInf else NegInf)"

text \<open>
  \<open>int(round(x))\<close> on a float: \<open>round\<close> raises on an infinity and on a NaN, and
  rounds a finite float to the nearest integer, a tie to the even one.
\<close>

definition py_round :: "pyfloat \<Rightarrow> error + int" where
  "py_round x =
     (case x of
        Finite q \<Rightarrow> Inr (rne q)
      | NaN \<Rightarrow> Inl ValueError
      | _ \<Rightarrow> Inl OverflowError)"




section \<open>The reconciliation script\<close>

text \<open>\<open>_usd_to_microcents\<close>: \<open>int(round(usd * 100 * 1_000_000))\<close>.\<close>

definition usd_to_microcents :: "pyfloat \<Rightarrow> error + int" where
  "usd_to_microcents usd = py_round (fmul (fmul usd (Finite 100)) (Finite 1000000))"


text \<open>
  A dictionary with keys of any type is an association list with distinct keys, in
  insertion order: \<open>d.get(k)\<close> is \<^const>\<open>map_of\<close>, and \<open>d[k] = v\<close> is
  \<^const>\<open>AList.update\<close>, which replaces the value of a key that is there and adds a new
  key at the end. \<open>d.update(other)\<close> assigns the entries of \<open>other\<close> one after the
  other.
\<close>

definition dict_update :: "('k \<times> 'v) list \<Rightarrow> ('k \<times> 'v) list \<Rightarrow> ('k \<times> 'v) list" where
  "dict_update d other = fold (\<lambda>(k, v) acc. AList.update k v acc) other d"














section \<open>Verified properties\<close>

subsection \<open>The request helper of the bootstrap script\<close>

lemma request_json_trace:
  "snd (request_json json_loads srv m u h p tr) =
     tr @ [\<lparr>req_method = m, req_url = u, req_headers = h, req_payload = p\<rparr>]"
  by (simp add: request_json_def Let_def split: http_reply.splits option.splits)

text \<open>
  Claim C10. In \<open>_request_json\<close>, an answer with an empty body is the empty object,
  not an error; an answer whose body is not empty and parses to a value that is not an
  object raises the \<open>RuntimeError\<close> "Expected JSON object response" and returns
  nothing. So when the health endpoint answers with such a body, \<open>main\<close> ends in that
  error after the one health request: it does not reach \<open>health.get\<close> on a value
  without that method.
\<close>

theorem request_json_body_shapes:
  "(srv tr \<lparr>req_method = m, req_url = u, req_headers = h, req_payload = p\<rparr> = Response []
      \<longrightarrow> fst (request_json json_loads srv m u h p tr) = Inr (PDict [])) \<and>
   (srv tr \<lparr>req_method = m, req_url = u, req_headers = h, req_payload = p\<rparr> = Response raw
      \<and> raw \<noteq> [] \<and> json_loads raw = Some v \<and> \<not> is_dict v
      \<longrightarrow> fst (request_json json_loads srv m u h p tr) =
            Inl (RuntimeError ''Expected JSON object response'')) \<and>
   (parse_args py_int args = Inr (limit, topup) \<and> \<not> arg_skip_health_check args
      \<and> srv [] \<lparr>req_method = ''GET'', req_url = rstrip_slash (arg_base_url args) @ ''/health'',
                  req_headers = [(''Accept'', ''application/json'')], req_payload = None\<rparr>
          = Response raw
      \<and> raw \<noteq> [] \<and> json_loads raw = Some v \<and> \<not> is_dict v
      \<longrightarrow> main json_loads py_int srv args [] =
            (Inl (RuntimeError ''Expected JSON object response''),
             [\<lparr>req_method = ''GET'', req_url = rstrip_slash (arg_base_url args) @ ''/health'',
               req_headers = [(''Accept'', ''application/json'')], req_payload = None\<rparr>]))"
  by (simp add: request_json_def main_def health_check_def io_bind_def Let_def)

theorem request_json_body_shapes_witness:
  "fst (request_json (\<lambda>s. if s = ''[1]'' then Some (PList [PInt 1]) else None)
          (\<lambda>tr r. Response []) ''GET'' ''http://h/health'' [] None []) = Inr (PDict []) \<and>
   fst (request_json (\<lambda>s. if s = ''[1]'' then Some (PList [PInt 1]) else None)
          (\<lambda>tr r. Response ''[1]'') ''GET'' ''http://h/health'' [] None []) =
     Inl (RuntimeError ''Expected JSON object response'') \<and>
   main (\<lambda>s. if s = ''[1]'' then Some (PList [PInt 1]) else None)
        (\<lambda>s. if s = ''5'' then Some 5 else None)
        (\<lambda>tr r. Response ''[1]'')
        \<lparr>arg_base_url = ''http://h/'', arg_name = ''a'', arg_limit = Some ''5'',
         arg_topup = None, arg_api_key = None, arg_skip_health_check = False,
         arg_create_run = False, arg_json = False, arg_topup_first = False\<rparr> [] =
     (Inl (RuntimeError ''Expected JSON object response''),
      [\<lparr>req_method = ''GET'', req_url = ''http://h/health'',
        req_headers = [(''Accept'', ''application/json'')], req_payload = None\<rparr>])"
proof -
  let ?jl = "\<lambda>s. if s = ''[1]'' then Some (PList [PInt 1]) else None"
  let ?pi = "\<lambda>s. if s = ''5'' then Some (5::int) else None"
  let ?args = "\<lparr>arg_base_url = ''http://h/'', arg_name = ''a'', arg_limit = Some ''5'',
         arg_topup = None, arg_api_key = None, arg_skip_health_check = False,
         arg_create_run = False, arg_json = False, arg_topup_first = False\<rparr>"
  have a: "parse_args ?pi ?args = Inr (5, None)"
    by (simp add: parse_args_def convert_opt_def parse_positive_int_def)
  have b: "rstrip_slash ''http://h/'' = ''http://h''"
    by (simp add: rstrip_slash_def)
  note t1 = request_json_body_shapes [of "\<lambda>tr r. Response []" "[]" "''GET''" "''http://h/health''"
      "[]" None ?jl "[]" "PNone" ?pi ?args 5 None]
  note t2 = request_json_body_shapes [of "\<lambda>tr r. Response ''[1]''" "[]" "''GET''" "''http://h/health''"
      "[]" None ?jl "''[1]''" "PList [PInt 1]" ?pi ?args 5 None]
  from t1 have c1: "fst (request_json ?jl (\<lambda>tr r. Response []) ''GET'' ''http://h/health'' [] None [])
      = Inr (PDict [])"
    by simp
  from t2 have c2: "fst (request_json ?jl (\<lambda>tr r. Response ''[1]'') ''GET'' ''http://h/health'' [] None [])
      = Inl (RuntimeError ''Expected JSON object response'')"
    by simp
  from t2 a b have c3: "main ?jl ?pi (\<lambda>tr r. Response ''[1]'') ?args [] =
     (Inl (RuntimeError ''Expected JSON object response''),
      [\<lparr>req_method = ''GET'', req_url = ''http://h/health'',
        req_headers = [(''Accept'', ''application/json'')], req_payload = None\<rparr>])"
    by simp
  from c1 c2 c3 show ?thesis by simp
qed

subsection \<open>The order of the provisioning requests\<close>

lemma url_facts:
  "\<not> suffix ''/budget'' (b @ ''/v1/agents'')"
  "\<not> suffix ''/budget'' (b @ ''/health'')"
  "\<not> suffix ''/runs'' (b @ ''/v1/agents'')"
  "\<not> suffix ''/runs'' (b @ ''/health'')"
  "\<not> suffix ''/runs'' (b @ ''/v1/agents/'' @ a @ ''/budget'')"
  "\<not> suffix ''/budget'' (b @ ''/v1/agents/'' @ a @ ''/runs'')"
  "suffix ''/budget'' (b @ ''/v1/agents/'' @ a @ ''/budget'')"
  "suffix ''/runs'' (b @ ''/v1/agents/'' @ a @ ''/runs'')"
  by (auto simp: suffix_def)

lemma bind_request_json:
  "io_bind (request_json jl srv m u h p) f tr =
     (case send jl srv \<lparr>req_method = m, req_url = u, req_headers = h, req_payload = p\<rparr> tr of
        Inl e \<Rightarrow> (Inl e, tr @ [\<lparr>req_method = m, req_url = u, req_headers = h, req_payload = p\<rparr>])
      | Inr x \<Rightarrow> f x (tr @ [\<lparr>req_method = m, req_url = u, req_headers = h, req_payload = p\<rparr>]))"
proof -
  obtain r t where rt: "request_json jl srv m u h p tr = (r, t)"
    by (cases "request_json jl srv m u h p tr")
  with request_json_trace [of jl srv m u h p tr]
  have t: "t = tr @ [\<lparr>req_method = m, req_url = u, req_headers = h, req_payload = p\<rparr>]"
    by simp
  show ?thesis
    by (simp add: io_bind_def send_def rt t split: sum.splits)
qed

lemma bind_return: "io_bind (io_return x) f tr = f x tr"
  by (simp add: io_bind_def io_return_def)

lemma bind_raise: "io_bind (io_raise e) f tr = (Inl e, tr)"
  by (simp add: io_bind_def io_raise_def)

lemmas req_defs = agents_request_def budget_request_def runs_request_def

lemma provision_shape:
  assumes "provision jl srv args base limit topup tr = (res, tr')"
  shows "(tr' = tr @ [agents_request args base] \<and> isl res) \<or>
     (\<exists>aid obj. aid \<noteq> [] \<and> send jl srv (agents_request args base) tr = Inr obj \<and>
        py_get obj ''agent_id'' = Inr (PStr aid) \<and>
        (tr' = tr @ [agents_request args base, budget_request args base aid limit topup] \<or>
         (\<exists>b. send jl srv (budget_request args base aid limit topup) (tr @ [agents_request args base]) = Inr b) \<and>
          tr' = tr @ [agents_request args base, budget_request args base aid limit topup, runs_request args base aid]))"
proof (cases "send jl srv (agents_request args base) tr")
  case (Inl e)
  then have "provision jl srv args base limit topup tr = (Inl e, tr @ [agents_request args base])"
    by (simp add: provision_def bind_request_json req_defs)
  with assms show ?thesis by auto
next
  case (Inr agent)
  note agent = this
  show ?thesis
  proof (cases "\<exists>aid. aid \<noteq> [] \<and> py_get agent ''agent_id'' = Inr (PStr aid)")
    case False
    with agent have "provision jl srv args base limit topup tr =
        (Inl (RuntimeError ''Agent creation did not return agent_id''), tr @ [agents_request args base])"
      by (auto simp: provision_def bind_request_json req_defs io_raise_def
          split: sum.splits pyval.splits)
    with assms show ?thesis by auto
  next
    case True
    then obtain aid where aid: "aid \<noteq> []" "py_get agent ''agent_id'' = Inr (PStr aid)"
      by blast
    show ?thesis
    proof (cases "send jl srv (budget_request args base aid limit topup) (tr @ [agents_request args base])")
      case (Inl e)
      with agent aid have "provision jl srv args base limit topup tr =
          (Inl e, tr @ [agents_request args base, budget_request args base aid limit topup])"
        by (simp add: provision_def bind_request_json req_defs)
      with assms agent aid show ?thesis by auto
    next
      case (Inr budget)
      show ?thesis
      proof (cases "arg_create_run args")
        case False
        with Inr agent aid have "provision jl srv args base limit topup tr =
          (Inr (PDict [(''base_url'', PStr base), (''agent_id'', PStr aid),
                       (''budget'', budget), (''run'', PNone)]),
           tr @ [agents_request args base, budget_request args base aid limit topup])"
          by (simp add: provision_def bind_request_json req_defs bind_return io_return_def)
        with assms agent aid show ?thesis by auto
      next
        case True
        with Inr agent aid have "snd (provision jl srv args base limit topup tr) =
           tr @ [agents_request args base, budget_request args base aid limit topup,
                 runs_request args base aid]"
          by (simp add: provision_def bind_request_json req_defs io_return_def split: sum.splits)
        with assms agent aid Inr show ?thesis by auto
      qed
    qed
  qed
qed

lemma health_check_shape:
  "health_check jl srv base tr =
     (case send jl srv (health_request base) tr of
        Inl e \<Rightarrow> (Inl e, tr @ [health_request base])
      | Inr health \<Rightarrow>
          if py_get health ''status'' \<noteq> Inr (PStr ''ok'')
          then (Inl (RuntimeError ''Health check failed: /health did not return status=ok''),
                tr @ [health_request base])
          else (Inr (), tr @ [health_request base]))"
  by (simp add: health_check_def bind_request_json health_request_def io_raise_def io_return_def
      split: sum.splits)

lemma main_shape:
  assumes "main jl pint srv args [] = (res, tr)"
  shows "tr = [] \<and> isl res \<or>
     (\<not> arg_skip_health_check args \<and> tr = [health_request (rstrip_slash (arg_base_url args))] \<and> isl res \<and>
        (\<forall>obj. send jl srv (health_request (rstrip_slash (arg_base_url args))) [] = Inr obj \<longrightarrow>
            py_get obj ''status'' \<noteq> Inr (PStr ''ok''))) \<or>
     (\<exists>limit topup pre.
        (\<exists>topup_opt. parse_args pint args = Inr (limit, topup_opt) \<and>
           topup = (case topup_opt of Some t \<Rightarrow> t | None \<Rightarrow> limit)) \<and>
        (arg_skip_health_check args \<and> pre = [] \<or>
         \<not> arg_skip_health_check args \<and> pre = [health_request (rstrip_slash (arg_base_url args))] \<and>
          (\<exists>obj. send jl srv (health_request (rstrip_slash (arg_base_url args))) [] = Inr obj \<and>
             py_get obj ''status'' = Inr (PStr ''ok''))) \<and>
        provision jl srv args (rstrip_slash (arg_base_url args)) limit topup pre = (res, tr))"
proof (cases "parse_args pint args")
  case (Inl e)
  with assms show ?thesis by (auto simp: main_def io_raise_def)
next
  case (Inr lt)
  obtain limit topup_opt where lt: "lt = (limit, topup_opt)" by (cases lt)
  let ?base = "rstrip_slash (arg_base_url args)"
  let ?topup = "case topup_opt of Some t \<Rightarrow> t | None \<Rightarrow> limit"
  show ?thesis
  proof (cases "arg_skip_health_check args")
    case True
    with Inr lt assms have "provision jl srv args ?base limit ?topup [] = (res, tr)"
      by (simp add: main_def Let_def bind_return)
    with True \<open>parse_args pint args = Inr lt\<close> lt show ?thesis by blast
  next
    case False
    note nskip = this
    show ?thesis
    proof (cases "send jl srv (health_request ?base) []")
      case (Inl e)
      with Inr lt assms nskip have "(res, tr) = (Inl e, [health_request ?base])"
        by (simp add: main_def Let_def io_bind_def health_check_shape)
      with nskip Inl show ?thesis by auto
    next
      case (Inr health)
      note health = this
      show ?thesis
      proof (cases "py_get health ''status'' = Inr (PStr ''ok'')")
        case True
        with \<open>parse_args pint args = Inr lt\<close> lt assms nskip health
        have "provision jl srv args ?base limit ?topup [health_request ?base] = (res, tr)"
          by (simp add: main_def Let_def io_bind_def health_check_shape)
        with nskip health True \<open>parse_args pint args = Inr lt\<close> lt show ?thesis by blast
      next
        case False
        with \<open>parse_args pint args = Inr lt\<close> lt assms nskip health
        have "(res, tr) = (Inl (RuntimeError ''Health check failed: /health did not return status=ok''),
             [health_request ?base])"
          by (simp add: main_def Let_def io_bind_def health_check_shape)
        with nskip health False show ?thesis by auto
      qed
    qed
  qed
qed

lemma call_facts:
  "\<not> budget_call b (health_request b)" "\<not> runs_call b (health_request b)"
  "\<not> agents_call b (health_request b)" "health_call b (health_request b)"
  "\<not> budget_call b (agents_request args b)" "\<not> runs_call b (agents_request args b)"
  "agents_call b (agents_request args b)" "\<not> health_call b (agents_request args b)"
  "budget_call b (budget_request args b aid l t)" "\<not> runs_call b (budget_request args b aid l t)"
  "\<not> health_call b (budget_request args b aid l t)"
  "\<not> agents_call b (budget_request args b aid l t)"
  "runs_call b (runs_request args b aid)" "\<not> budget_call b (runs_request args b aid)"
  "\<not> health_call b (runs_request args b aid)"
  "\<not> agents_call b (runs_request args b aid)"
  "req_url (budget_request args b aid l t) = b @ ''/v1/agents/'' @ aid @ ''/budget''"
  by (simp_all add: url_facts [simplified] budget_call_def runs_call_def agents_call_def health_call_def req_defs
      health_request_def)

lemma call_result_send: "call_result jl srv tr j = send jl srv (tr ! j) (take j tr)"
  by (simp add: call_result_def send_def)

text \<open>
  Claim C4. In every run of the bootstrap \<open>main\<close>, with \<open>tr\<close> the requests it has sent:
  a budget request is sent only after a request to create the agent whose result was an
  object with a non-empty string \<open>agent_id\<close>, and it is addressed to that agent; a
  request to create a run is sent only after a budget request that returned a result;
  and when a health request was sent and did not return an object whose \<open>status\<close> is
  \<open>"ok"\<close>, the run ends in an exception and no request to create an agent was sent.
\<close>

theorem provisioning_order:
  assumes "main jl pint srv args [] = (res, tr)"
  shows "(\<forall>i<length tr. budget_call (rstrip_slash (arg_base_url args)) (tr ! i) \<longrightarrow>
            (\<exists>j<i. agents_call (rstrip_slash (arg_base_url args)) (tr ! j) \<and>
               (\<exists>obj aid. call_result jl srv tr j = Inr obj \<and>
                  py_get obj ''agent_id'' = Inr (PStr aid) \<and> aid \<noteq> [] \<and>
                  req_url (tr ! i) =
                    rstrip_slash (arg_base_url args) @ ''/v1/agents/'' @ aid @ ''/budget''))) \<and>
         (\<forall>i<length tr. runs_call (rstrip_slash (arg_base_url args)) (tr ! i) \<longrightarrow>
            (\<exists>j<i. budget_call (rstrip_slash (arg_base_url args)) (tr ! j) \<and>
               (\<exists>b. call_result jl srv tr j = Inr b))) \<and>
         (\<forall>k<length tr. health_call (rstrip_slash (arg_base_url args)) (tr ! k) \<and>
              (\<forall>obj. call_result jl srv tr k = Inr obj \<longrightarrow>
                  py_get obj ''status'' \<noteq> Inr (PStr ''ok'')) \<longrightarrow>
            isl res \<and> (\<forall>i<length tr. \<not> agents_call (rstrip_slash (arg_base_url args)) (tr ! i)))"
proof -
  let ?b = "rstrip_slash (arg_base_url args)"
  let ?H = "health_request ?b"
  let ?A = "agents_request args ?b"
  from main_shape [OF assms]
  consider (none) "tr = []"
    | (unhealthy) "tr = [?H]" "isl res"
        "\<forall>obj. send jl srv ?H [] = Inr obj \<longrightarrow> py_get obj ''status'' \<noteq> Inr (PStr ''ok'')"
    | (prov) limit topup pre where
        "pre = [] \<or> pre = [?H] \<and>
           (\<exists>obj. send jl srv ?H [] = Inr obj \<and> py_get obj ''status'' = Inr (PStr ''ok''))"
        "provision jl srv args ?b limit topup pre = (res, tr)"
    by blast
  then show ?thesis
  proof cases
    case none
    then show ?thesis by simp
  next
    case unhealthy
    then show ?thesis by (simp add: call_facts)
  next
    case prov
    from provision_shape [OF prov(2)]
    consider (a) "tr = pre @ [?A]" "isl res"
      | (b) aid obj where "aid \<noteq> []" "send jl srv ?A pre = Inr obj"
          "py_get obj ''agent_id'' = Inr (PStr aid)"
          "tr = pre @ [?A, budget_request args ?b aid limit topup]"
      | (c) aid obj bud where "aid \<noteq> []" "send jl srv ?A pre = Inr obj"
          "py_get obj ''agent_id'' = Inr (PStr aid)"
          "send jl srv (budget_request args ?b aid limit topup) (pre @ [?A]) = Inr bud"
          "tr = pre @ [?A, budget_request args ?b aid limit topup, runs_request args ?b aid]"
      by blast
    then show ?thesis
    proof cases
      case a
      with prov(1) show ?thesis
        by (auto simp: All_less_Suc Ex_less_Suc call_facts call_result_send)
    next
      case b
      with prov(1) show ?thesis
        by (auto simp: All_less_Suc Ex_less_Suc call_facts call_result_send)
    next
      case c
      with prov(1) show ?thesis
        by (auto simp: All_less_Suc Ex_less_Suc call_facts call_result_send)
    qed
  qed
qed

lemmas run_defs = main_def parse_args_def convert_opt_def arg_error_def parse_positive_int_def
  rstrip_slash_def
  health_check_def provision_def io_bind_def io_return_def io_raise_def request_json_def
  scripted_def ex_json_loads_def ex_py_int_def ex_args_def headers_def Let_def

lemma ex_main_healthy:
  "main ex_json_loads ex_py_int
     (scripted [Response ''{status: ok}'', Response ''{agent_id: a1}'', Response ''{}'',
                Response ''{run_id: r1}'']) ex_args [] =
   (Inr (PDict [(''base_url'', PStr ''http://h''), (''agent_id'', PStr ''a1''),
                (''budget'', PDict []), (''run'', PDict [(''run_id'', PStr ''r1'')])]),
    [health_request ''http://h'', agents_request ex_args ''http://h'',
     budget_request ex_args ''http://h'' ''a1'' 5 5, runs_request ex_args ''http://h'' ''a1''])"
  by (simp add: run_defs req_defs health_request_def)

lemma ex_main_degraded:
  "main ex_json_loads ex_py_int (scripted [Response ''{status: degraded}'']) ex_args [] =
   (Inl (RuntimeError ''Health check failed: /health did not return status=ok''),
    [health_request ''http://h''])"
  by (simp add: run_defs req_defs health_request_def)

text \<open>
  The example: a healthy service answers the four requests of a run with
  \<open>--create-run\<close>; a degraded one is left after the health request.
\<close>

theorem provisioning_order_witness:
  "budget_call ''http://h''
     ([health_request ''http://h'', agents_request ex_args ''http://h'',
       budget_request ex_args ''http://h'' ''a1'' 5 5, runs_request ex_args ''http://h'' ''a1''] ! 2) \<and>
   runs_call ''http://h''
     ([health_request ''http://h'', agents_request ex_args ''http://h'',
       budget_request ex_args ''http://h'' ''a1'' 5 5, runs_request ex_args ''http://h'' ''a1''] ! 3) \<and>
   (\<exists>j<2. agents_call ''http://h''
       ([health_request ''http://h'', agents_request ex_args ''http://h'',
         budget_request ex_args ''http://h'' ''a1'' 5 5, runs_request ex_args ''http://h'' ''a1''] ! j)) \<and>
   (\<exists>j<3. budget_call ''http://h''
       ([health_request ''http://h'', agents_request ex_args ''http://h'',
         budget_request ex_args ''http://h'' ''a1'' 5 5, runs_request ex_args ''http://h'' ''a1''] ! j)) \<and>
   health_call ''http://h'' ([health_request ''http://h''] ! 0) \<and>
   \<not> agents_call ''http://h'' ([health_request ''http://h''] ! 0) \<and>
   isl (Inl (RuntimeError ''Health check failed: /health did not return status=ok'') :: error + pyval)"
proof -
  let ?tr = "[health_request ''http://h'', agents_request ex_args ''http://h'',
       budget_request ex_args ''http://h'' ''a1'' 5 5, runs_request ex_args ''http://h'' ''a1'']"
  have b: "rstrip_slash (arg_base_url ex_args) = ''http://h''"
    by (simp add: rstrip_slash_def ex_args_def)
  note ok = provisioning_order [OF ex_main_healthy, unfolded b]
  note bad = provisioning_order [OF ex_main_degraded, unfolded b]
  have l2: "2 < length ?tr" and l3: "3 < length ?tr" and l0: "0 < length [health_request ''http://h'']"
    by simp_all
  have c2: "budget_call ''http://h'' (?tr ! 2)" and c3: "runs_call ''http://h'' (?tr ! 3)"
    by (simp_all add: call_facts)
  from ok [THEN conjunct1, rule_format, OF l2 c2]
  have p1: "\<exists>j<2. agents_call ''http://h'' (?tr ! j)"
    by blast
  from ok [THEN conjunct2, THEN conjunct1, rule_format, OF l3 c3]
  have p2: "\<exists>j<3. budget_call ''http://h'' (?tr ! j)"
    by blast
  have h: "health_call ''http://h'' ([health_request ''http://h''] ! 0)"
    by (simp add: call_facts)
  have nok: "\<forall>obj. call_result ex_json_loads (scripted [Response ''{status: degraded}''])
       [health_request ''http://h''] 0 = Inr obj \<longrightarrow> py_get obj ''status'' \<noteq> Inr (PStr ''ok'')"
    by (simp add: call_result_def request_json_def scripted_def health_request_def ex_json_loads_def)
  from bad [THEN conjunct2, THEN conjunct2, rule_format, OF l0 conjI [OF h nok]]
  have p3: "isl (Inl (RuntimeError ''Health check failed: /health did not return status=ok'') :: error + pyval)"
    and p4: "\<forall>i<length [health_request ''http://h'']. \<not> agents_call ''http://h'' ([health_request ''http://h''] ! i)"
    by blast+
  from p4 l0 have p5: "\<not> agents_call ''http://h'' ([health_request ''http://h''] ! 0)"
    by blast
  from c2 c3 p1 p2 h p5 p3 show ?thesis by blast
qed

subsection \<open>The requests of the traffic generator\<close>

lemma http_json_pair:
  "http_json jl srv m u (Some p) tr = (fst (http_json jl srv m u (Some p) tr), tr @ [t_request m u p])"
  by (simp add: http_json_def t_request_def Let_def split: http_reply.splits option.splits)

lemma bind_http_json:
  "io_bind (http_json jl srv m u (Some p)) f tr =
     (case fst (http_json jl srv m u (Some p) tr) of
        Inl e \<Rightarrow> (Inl e, tr @ [t_request m u p])
      | Inr x \<Rightarrow> f x (tr @ [t_request m u p]))"
  by (subst io_bind_def, subst http_json_pair) (simp split: sum.splits)

lemma http_results_append:
  "http_results jl srv pre (xs @ ys) = http_results jl srv pre xs @ http_results jl srv (pre @ xs) ys"
  by (induction xs arbitrary: pre) simp_all

lemma t_url_facts:
  "\<not> suffix ''/openai/responses'' (b @ ''/v1/agents'')"
  "\<not> suffix ''/openai/responses'' (b @ ''/v1/agents/'' @ a @ ''/budget'')"
  "\<not> suffix ''/openai/responses'' (b @ ''/v1/agents/'' @ a @ ''/runs'')"
  "\<not> suffix ''/runs'' (b @ ''/v1/agents/'' @ a @ ''/runs/'' @ r @ ''/openai/responses'')"
  "\<not> suffix ''/budget'' (b @ ''/v1/agents/'' @ a @ ''/runs/'' @ r @ ''/openai/responses'')"
  "suffix ''/openai/responses'' (b @ ''/v1/agents/'' @ a @ ''/runs/'' @ r @ ''/openai/responses'')"
  by (auto simp: suffix_def)

lemma t_call_facts:
  "runs_call b (run_req b aid)" "\<not> responses_call b (run_req b aid)"
  "responses_call b (resp_req args b aid rid i)" "\<not> runs_call b (resp_req args b aid rid i)"
  "req_payload (resp_req args b aid rid i) = Some (responses_payload args i)"
  by (simp_all add: runs_call_def responses_call_def run_req_def resp_req_def t_request_def
      t_url_facts [simplified] url_facts [simplified])

lemma http_results_t_request [simp]:
  "http_results jl srv pre (t_request m u p # rs) =
     fst (http_json jl srv m u (Some p) pre) # http_results jl srv (pre @ [t_request m u p]) rs"
  by (simp add: t_request_def)


lemma t_request_sel [simp]:
  "req_method (t_request m u p) = m" "req_url (t_request m u p) = u"
  "req_payload (t_request m u p) = Some p"
  by (simp_all add: t_request_def)

lemma req_sel:
  "req_method (run_req b a) = ''POST''"
  "req_url (run_req b a) = b @ ''/v1/agents/'' @ a @ ''/runs''"
  "req_payload (run_req b a) = Some (PDict [])"
  "req_method (resp_req args b a rid i) = ''POST''"
  "req_url (resp_req args b a rid i) = b @ ''/v1/agents/'' @ a @ ''/runs/'' @ rid @ ''/openai/responses''"
  "req_payload (resp_req args b a rid i) = Some (responses_payload args i)"
  by (simp_all add: run_req_def resp_req_def t_request_def)

lemma t_req_sel:
  "req_method (t_agents_req args b) = ''POST''"
  "req_url (t_agents_req args b) = b @ ''/v1/agents''"
  "req_payload (t_agents_req args b) =
     Some (PDict [(''name'', PStr (default ''traffic-test'' (t_agent_name args)))])"
  "req_method (t_budget_req args b a) = ''POST''"
  "req_url (t_budget_req args b a) = b @ ''/v1/agents/'' @ a @ ''/budget''"
  "req_payload (t_budget_req args b a) =
     Some (PDict [(''hard_limit_cents'', PInt (default 500 (t_hard_limit_cents args))),
               (''topup_cents'', PInt (default 500 (t_topup_cents args)))])"
  by (simp_all add: t_agents_req_def t_budget_req_def t_request_def)

lemma t_call_facts2:
  "\<not> runs_call b (t_agents_req args b)" "\<not> responses_call b (t_agents_req args b)"
  "\<not> budget_call b (t_agents_req args b)" "agents_call b (t_agents_req args b)"
  "\<not> runs_call b (t_budget_req args b a)" "\<not> responses_call b (t_budget_req args b a)"
  "budget_call b (t_budget_req args b a)" "\<not> agents_call b (t_budget_req args b a)"
  "\<not> agents_call b (run_req b a)" "\<not> agents_call b (resp_req args b a rid i)"
  by (simp_all add: runs_call_def responses_call_def budget_call_def agents_call_def t_req_sel
      req_sel t_url_facts [simplified] url_facts [simplified])

lemma sleep_step_eq: "sleep_step sl args tr = (outcome (sleep_error sl args), tr)"
  by (simp add: sleep_step_def sleep_error_def outcome_def io_return_def io_raise_def
      split: option.splits)

lemma one_request_eq:
  "one_request jl ps sl srv args base agent_id i tr =
     (case fst (http_json jl srv ''POST'' (base @ ''/v1/agents/'' @ fmt ps agent_id @ ''/runs'')
                 (Some (PDict [])) tr) of
        Inl e \<Rightarrow> (Inl e, tr @ [run_req base (fmt ps agent_id)])
      | Inr run \<Rightarrow>
          if \<not> truthy (get_if_dict run ''run_id'')
          then (Inl (RuntimeError (''Unexpected /v1/agents/{agent_id}/runs response: '' @ fmt ps run)),
                tr @ [run_req base (fmt ps agent_id)])
          else
            ((case fst (http_json jl srv ''POST''
                  (base @ ''/v1/agents/'' @ fmt ps agent_id @ ''/runs/'' @
                     fmt ps (get_if_dict run ''run_id'') @ ''/openai/responses'')
                  (Some (responses_payload args i)) (tr @ [run_req base (fmt ps agent_id)])) of
                Inl e \<Rightarrow> Inl e
              | Inr x \<Rightarrow> outcome (sleep_error sl args)),
             tr @ [run_req base (fmt ps agent_id),
                   resp_req args base (fmt ps agent_id) (fmt ps (get_if_dict run ''run_id'')) i]))"
  by (simp add: one_request_def bind_http_json run_req_def resp_req_def io_raise_def Let_def
      sleep_step_eq split: sum.splits)

lemma for_range_Cons:
  "for_range body (i # rest) tr =
     (case body i tr of (Inl e, tr1) \<Rightarrow> (Inl e, tr1) | (Inr u, tr1) \<Rightarrow> for_range body rest tr1)"
  by (simp add: io_bind_def)

lemma http_results_length [simp]: "length (http_results jl srv pre xs) = length xs"
  by (induction xs arbitrary: pre) simp_all

lemma http_results_Nil [simp]: "(http_results jl srv pre xs = []) = (xs = [])"
  by (cases xs) simp_all

lemma stop_error_append:
  "new \<noteq> [] \<Longrightarrow>
     stop_error jl ps sl srv args b pre (xs @ new) = stop_error jl ps sl srv args b (pre @ xs) new"
proof -
  assume n: "new \<noteq> []"
  then have a: "last (xs @ new) = last new" by simp
  from n have b: "last (http_results jl srv pre (xs @ new)) = last (http_results jl srv (pre @ xs) new)"
    by (simp add: http_results_append)
  from n show ?thesis unfolding stop_error_def a b by simp
qed

lemma outcome_simps [simp]:
  "outcome None = Inr ()" "outcome (Some e) = Inl e"
  "(outcome x = Inr ()) = (x = None)" "isl (outcome x) = (x \<noteq> None)"
  by (simp_all add: outcome_def split: option.splits)

lemma stop_error_run:
  "stop_error jl ps sl srv args b pre [run_req b aid] =
     (case fst (http_json jl srv ''POST'' (b @ ''/v1/agents/'' @ aid @ ''/runs'') (Some (PDict [])) pre) of
        Inl e \<Rightarrow> Some e
      | Inr v \<Rightarrow> if \<not> truthy (get_if_dict v ''run_id'')
                 then Some (RuntimeError (''Unexpected /v1/agents/{agent_id}/runs response: '' @ fmt ps v))
                 else None)"
  by (simp add: stop_error_def req_sel t_call_facts t_call_facts2 split: sum.splits)

lemma stop_error_resp:
  "stop_error jl ps sl srv args b pre [run_req b aid, resp_req args b aid rid i] =
     (case fst (http_json jl srv ''POST''
           (b @ ''/v1/agents/'' @ aid @ ''/runs/'' @ rid @ ''/openai/responses'')
           (Some (responses_payload args i)) (pre @ [run_req b aid])) of
        Inl e \<Rightarrow> Some e
      | Inr v \<Rightarrow> sleep_error sl args)"
  by (simp add: stop_error_def req_sel t_call_facts t_call_facts2 split: sum.splits)

lemma for_range_shape:
  assumes "for_range (one_request jl ps sl srv args base agent_id) ixs tr = (res, tr')"
  shows "\<exists>new. tr' = tr @ new \<and> loop_inv jl ps sl srv base (fmt ps agent_id) args tr ixs res new"
  using assms
proof (induction ixs arbitrary: tr res tr')
  case Nil
  then show ?case
    by (auto simp: io_return_def loop_inv_def)
next
  case (Cons i rest)
  let ?aid = "fmt ps agent_id"
  let ?R = "run_req base ?aid"
  let ?r1 = "fst (http_json jl srv ''POST'' (base @ ''/v1/agents/'' @ ?aid @ ''/runs'')
                 (Some (PDict [])) tr)"
  show ?case
  proof (cases ?r1)
    case (Inl e)
    then have "one_request jl ps sl srv args base agent_id i tr = (Inl e, tr @ [?R])"
      by (simp add: one_request_eq)
    with Cons.prems have "res = Inl e" "tr' = tr @ [?R]"
      by (simp_all add: io_bind_def)
    with Inl have "loop_inv jl ps sl srv base ?aid args tr (i # rest) res [?R]"
      by (simp add: loop_inv_def t_call_facts req_sel stop_error_run)
    with \<open>tr' = tr @ [?R]\<close> show ?thesis by blast
  next
    case (Inr run)
    note run = this
    show ?thesis
    proof (cases "truthy (get_if_dict run ''run_id'')")
      case False
      with run have "one_request jl ps sl srv args base agent_id i tr =
          (Inl (RuntimeError (''Unexpected /v1/agents/{agent_id}/runs response: '' @ fmt ps run)),
           tr @ [?R])"
        by (simp add: one_request_eq)
      with Cons.prems
      have "res = Inl (RuntimeError (''Unexpected /v1/agents/{agent_id}/runs response: '' @ fmt ps run))"
        "tr' = tr @ [?R]"
        by (simp_all add: io_bind_def)
      with run False have "loop_inv jl ps sl srv base ?aid args tr (i # rest) res [?R]"
        by (simp add: loop_inv_def t_call_facts req_sel stop_error_run)
      with \<open>tr' = tr @ [?R]\<close> show ?thesis by blast
    next
      case True
      let ?rid = "fmt ps (get_if_dict run ''run_id'')"
      let ?P = "resp_req args base ?aid ?rid i"
      let ?r2 = "fst (http_json jl srv ''POST''
             (base @ ''/v1/agents/'' @ ?aid @ ''/runs/'' @ ?rid @ ''/openai/responses'')
             (Some (responses_payload args i)) (tr @ [?R]))"
      have lt: "loop_trace jl ps srv args base ?aid tr (i # rest) [?R, ?P]"
        using run True by (simp add: req_sel)
      show ?thesis
      proof (cases ?r2)
        case (Inl e)
        with run True have "one_request jl ps sl srv args base agent_id i tr = (Inl e, tr @ [?R, ?P])"
          by (simp add: one_request_eq)
        with Cons.prems have "res = Inl e" "tr' = tr @ [?R, ?P]"
          by (simp_all add: io_bind_def)
        with run True Inl lt have "loop_inv jl ps sl srv base ?aid args tr (i # rest) res [?R, ?P]"
          by (simp add: loop_inv_def t_call_facts req_sel stop_error_resp)
        with \<open>tr' = tr @ [?R, ?P]\<close> show ?thesis by blast
      next
        case (Inr x)
        note r2 = this
        show ?thesis
        proof (cases "sleep_error sl args")
          case (Some e)
          with run True r2
          have "one_request jl ps sl srv args base agent_id i tr = (Inl e, tr @ [?R, ?P])"
            by (simp add: one_request_eq)
          with Cons.prems have "res = Inl e" "tr' = tr @ [?R, ?P]"
            by (simp_all add: io_bind_def)
          with run True r2 Some lt
          have "loop_inv jl ps sl srv base ?aid args tr (i # rest) res [?R, ?P]"
            by (simp add: loop_inv_def t_call_facts req_sel stop_error_resp)
          with \<open>tr' = tr @ [?R, ?P]\<close> show ?thesis by blast
        next
          case None
          with run True r2
          have "one_request jl ps sl srv args base agent_id i tr = (Inr (), tr @ [?R, ?P])"
            by (simp add: one_request_eq)
          with Cons.prems
          have "for_range (one_request jl ps sl srv args base agent_id) rest (tr @ [?R, ?P]) = (res, tr')"
            by (simp add: io_bind_def)
          from Cons.IH [OF this] obtain new where
            new: "tr' = (tr @ [?R, ?P]) @ new"
              "loop_inv jl ps sl srv base ?aid args (tr @ [?R, ?P]) rest res new"
            by blast
          let ?new = "[?R, ?P] @ new"
          from new have t: "tr' = tr @ ?new" by simp
          have res: "http_results jl srv tr ?new = ?r1 # ?r2 # http_results jl srv (tr @ [?R, ?P]) new"
            by (simp add: req_sel)
          have ltn: "loop_trace jl ps srv args base ?aid tr (i # rest) ?new"
            using run True new(2) by (simp add: req_sel loop_inv_def)
          have st: "res = outcome (stop_error jl ps sl srv args base tr ?new)"
          proof (cases "rest = []")
            case True
            with new(2) have "new = []" "res = Inr ()" by (simp_all add: loop_inv_def)
            with r2 None show ?thesis by (simp add: stop_error_resp)
          next
            case False
            with new(2) have "new \<noteq> []"
              "res = outcome (stop_error jl ps sl srv args base (tr @ [?R, ?P]) new)"
              by (simp_all add: loop_inv_def)
            then show ?thesis
              using stop_error_append [of new jl ps sl srv args base tr "[?R, ?P]"] by simp
          qed
          from new(2) run r2 None have "paired (runs_call base) (responses_call base) ?new \<and>
              length (filter (responses_call base) ?new) \<le> length (i # rest) \<and>
              map req_payload (filter (responses_call base) ?new) =
                map (\<lambda>i. Some (responses_payload args i))
                  (take (length (filter (responses_call base) ?new)) (i # rest)) \<and>
              (res = Inr () \<longrightarrow> length (filter (runs_call base) ?new) = length (i # rest) \<and>
                 length (filter (responses_call base) ?new) = length (i # rest)) \<and>
              list_all (\<lambda>x. \<not> isl x) (butlast (http_results jl srv tr ?new)) \<and>
              (\<not> list_all (\<lambda>x. \<not> isl x) (http_results jl srv tr ?new) \<longrightarrow> isl res) \<and>
              (sleep_error sl args \<noteq> None \<longrightarrow> length (filter (responses_call base) ?new) \<le> 1)"
            unfolding loop_inv_def res
            by (auto simp: t_call_facts)
          moreover have "(i # rest = [] \<longrightarrow> ?new = [] \<and> res = Inr ()) \<and>
              (i # rest \<noteq> [] \<longrightarrow> ?new \<noteq> [] \<and>
                 res = outcome (stop_error jl ps sl srv args base tr ?new))"
            using st by simp
          ultimately have "loop_inv jl ps sl srv base ?aid args tr (i # rest) res ?new"
            unfolding loop_inv_def using ltn by blast
          with t show ?thesis by blast
        qed
      qed
    qed
  qed
qed

lemma stop_error_agent:
  "stop_error jl ps sl srv args b [] [t_agents_req args b] =
     (case fst (http_json jl srv ''POST'' (b @ ''/v1/agents'') (req_payload (t_agents_req args b)) []) of
        Inl e \<Rightarrow> Some e
      | Inr v \<Rightarrow> if \<not> truthy (get_if_dict v ''agent_id'')
                 then Some (RuntimeError (''Unexpected /v1/agents response: '' @ fmt ps v))
                 else None)"
  by (simp add: stop_error_def t_req_sel t_call_facts2 split: sum.splits)

lemma stop_error_budget:
  "stop_error jl ps sl srv args b [] [t_agents_req args b, t_budget_req args b aid] =
     (case fst (http_json jl srv ''POST'' (b @ ''/v1/agents/'' @ aid @ ''/budget'')
                 (req_payload (t_budget_req args b aid)) [t_agents_req args b]) of
        Inl e \<Rightarrow> Some e
      | Inr v \<Rightarrow> None)"
  by (simp add: stop_error_def t_req_sel t_call_facts2 split: sum.splits)

lemma traffic_main_invalid:
  assumes "\<not> valid_args args"
  shows "\<exists>m. traffic_main jl ps sl srv args [] = (Inl (SystemExit m), [])"
  using assms by (auto simp: traffic_main_def valid_args_def io_raise_def Let_def)

lemma traffic_main_shape:
  assumes "traffic_main jl ps sl srv args [] = (res, tr)"
  shows "(\<not> valid_args args \<and> tr = [] \<and> (\<exists>m. res = Inl (SystemExit m))) \<or>
     (valid_args args \<and> tr = [t_agents_req args (t_base args)] \<and> isl res \<and>
        res = outcome (stop_error jl ps sl srv args (t_base args) [] tr)) \<or>
     (valid_args args \<and>
      (\<exists>agent. fst (http_json jl srv ''POST'' (t_base args @ ''/v1/agents'')
                 (req_payload (t_agents_req args (t_base args))) []) = Inr agent \<and>
         truthy (get_if_dict agent ''agent_id'') \<and>
         ((tr = [t_agents_req args (t_base args),
                 t_budget_req args (t_base args) (fmt ps (get_if_dict agent ''agent_id''))] \<and>
           isl res \<and> res = outcome (stop_error jl ps sl srv args (t_base args) [] tr)) \<or>
          (\<exists>new. tr = [t_agents_req args (t_base args),
                   t_budget_req args (t_base args) (fmt ps (get_if_dict agent ''agent_id''))] @ new \<and>
             \<not> isl (fst (http_json jl srv ''POST''
                 (t_base args @ ''/v1/agents/'' @ fmt ps (get_if_dict agent ''agent_id'') @ ''/budget'')
                 (req_payload (t_budget_req args (t_base args) (fmt ps (get_if_dict agent ''agent_id''))))
                 [t_agents_req args (t_base args)])) \<and>
             loop_inv jl ps sl srv (t_base args) (fmt ps (get_if_dict agent ''agent_id'')) args
               [t_agents_req args (t_base args),
                t_budget_req args (t_base args) (fmt ps (get_if_dict agent ''agent_id''))]
               [0..<nat (default 1 (t_n args))] res new))))"
proof (cases "valid_args args")
  case False
  from traffic_main_invalid [OF this, of jl ps sl srv] assms False show ?thesis by auto
next
  case True
  let ?b = "t_base args"
  let ?A = "t_agents_req args ?b"
  let ?ra = "fst (http_json jl srv ''POST'' (?b @ ''/v1/agents'') (req_payload ?A) [])"
  from True have valid: "0 < default 1 (t_n args)" "0 < default 500 (t_hard_limit_cents args)"
    "0 \<le> default 500 (t_topup_cents args)" "0 < default 128 (t_max_output_tokens args)"
    by (simp_all add: valid_args_def)
  show ?thesis
  proof (cases ?ra)
    case (Inl e)
    with valid have "traffic_main jl ps sl srv args [] = (Inl e, [?A])"
      by (simp add: traffic_main_def Let_def bind_http_json t_req_sel t_agents_req_def [symmetric]
          t_base_def [symmetric])
    with assms have "tr = [?A]" "res = Inl e" by simp_all
    with Inl True show ?thesis by (simp add: stop_error_agent)
  next
    case (Inr agent)
    note agent = this
    show ?thesis
    proof (cases "truthy (get_if_dict agent ''agent_id'')")
      case False
      with valid agent have "traffic_main jl ps sl srv args [] =
          (Inl (RuntimeError (''Unexpected /v1/agents response: '' @ fmt ps agent)), [?A])"
        by (simp add: traffic_main_def Let_def bind_http_json t_req_sel t_agents_req_def [symmetric]
            t_base_def [symmetric] io_raise_def)
      with assms have "tr = [?A]"
        "res = Inl (RuntimeError (''Unexpected /v1/agents response: '' @ fmt ps agent))"
        by simp_all
      with agent False \<open>valid_args args\<close> show ?thesis by (simp add: stop_error_agent)
    next
      case True
      let ?aid = "fmt ps (get_if_dict agent ''agent_id'')"
      let ?B = "t_budget_req args ?b ?aid"
      let ?rb = "fst (http_json jl srv ''POST'' (?b @ ''/v1/agents/'' @ ?aid @ ''/budget'')
                 (req_payload ?B) [?A])"
      show ?thesis
      proof (cases ?rb)
        case (Inl e)
        with valid agent True have "traffic_main jl ps sl srv args [] = (Inl e, [?A, ?B])"
          by (simp add: traffic_main_def Let_def bind_http_json t_req_sel t_base_def [symmetric]
              t_agents_req_def t_budget_req_def)
        with assms have "tr = [?A, ?B]" "res = Inl e" by simp_all
        with Inl have "tr = [?A, ?B] \<and> isl res \<and>
            res = outcome (stop_error jl ps sl srv args ?b [] tr)"
          by (simp add: stop_error_budget)
        with agent True \<open>valid_args args\<close> show ?thesis by blast
      next
        case (Inr bud)
        with valid agent True have "traffic_main jl ps sl srv args [] =
            for_range (one_request jl ps sl srv args ?b (get_if_dict agent ''agent_id''))
              [0..<nat (default 1 (t_n args))] [?A, ?B]"
          by (simp add: traffic_main_def Let_def bind_http_json t_req_sel t_base_def [symmetric]
              t_agents_req_def t_budget_req_def)
        with assms have "for_range (one_request jl ps sl srv args ?b (get_if_dict agent ''agent_id''))
              [0..<nat (default 1 (t_n args))] [?A, ?B] = (res, tr)"
          by simp
        from for_range_shape [OF this] obtain new where
          "tr = [?A, ?B] @ new"
          "loop_inv jl ps sl srv ?b ?aid args [?A, ?B] [0..<nat (default 1 (t_n args))] res new"
          by blast
        moreover have "\<not> isl ?rb" using Inr by simp
        ultimately show ?thesis using agent True \<open>valid_args args\<close> by blast
      qed
    qed
  qed
qed

lemma take_upt_le: "k \<le> n \<Longrightarrow> take k [0..<n] = [0..<k]"
  by (simp add: take_upt)

lemma prompt_suffix: "suffix (''Request number: '' @ show_nat (i + 1) @ [CHR 0x0A]) (prompt i)"
  unfolding prompt_def suffix_def
  by (rule exI [of _ "''Give a concise, correct answer.'' @ [CHR 0x0A] @
     ''Task: Return the first 25 prime numbers as a comma-separated list.'' @ [CHR 0x0A]"]) simp

text \<open>
  Claim C3, as amended. For every run of the generator, with \<open>tr\<close> the requests it has
  sent and \<open>res\<close> how it has ended:
  \<^item> a command line that fails one of the four checks sends nothing and ends in
    \<open>SystemExit\<close>;
  \<^item> on every other command line the first request is the creation of the agent, and
    the run ends as the last request it has sent says: in the exception of that
    request, in the \<open>RuntimeError\<close> about an answer without identifier, in the
    exception of the delay after a metered request, and normally otherwise;
  \<^item> a second request is sent only after the service has answered the first with an
    \<open>agent_id\<close>, and is the budget of that agent; the requests after it come in pairs,
    a pair for each index of the loop: the creation of a run for that agent, and, once
    the service has answered it with a \<open>run_id\<close>, the metered request under that very
    run (\<open>loop_trace\<close>);
  \<^item> so after the agent and the budget the requests alternate between the creation of
    a run and a metered request (a run that ends normally has sent \<open>n\<close> of each, not
    one run creation for the loop); the payload of the \<open>k\<close>-th metered request is the
    one built for the index \<open>k - 1\<close>, whose prompt ends with the line
    "Request number: \<open>k\<close>";
  \<^item> every request but the last one sent has returned a result, and the run ends in an
    exception when the last one has not: nothing is sent after a request that failed;
    and when the delay raises, no second metered request is sent.
\<close>

theorem traffic_requests:
  assumes "traffic_main jl ps sl srv args [] = (res, tr)"
  shows "(\<not> valid_args args \<longrightarrow> tr = [] \<and> (\<exists>m. res = Inl (SystemExit m))) \<and>
     (valid_args args \<longrightarrow>
        tr \<noteq> [] \<and> tr ! 0 = t_agents_req args (t_base args) \<and>
        res = outcome (stop_error jl ps sl srv args (t_base args) [] tr)) \<and>
     (2 \<le> length tr \<longrightarrow>
        (\<exists>agent. fst (http_json jl srv ''POST'' (t_base args @ ''/v1/agents'')
                   (req_payload (t_agents_req args (t_base args))) []) = Inr agent \<and>
           truthy (get_if_dict agent ''agent_id'') \<and>
           tr ! 1 = t_budget_req args (t_base args) (fmt ps (get_if_dict agent ''agent_id'')) \<and>
           loop_trace jl ps srv args (t_base args) (fmt ps (get_if_dict agent ''agent_id''))
             (take 2 tr) [0..<nat (default 1 (t_n args))] (drop 2 tr))) \<and>
     paired (runs_call (t_base args)) (responses_call (t_base args)) (drop 2 tr) \<and>
     map req_payload (filter (responses_call (t_base args)) tr) =
       map (\<lambda>i. Some (responses_payload args i))
         [0..<length (filter (responses_call (t_base args)) tr)] \<and>
     (res = Inr () \<longrightarrow>
        length (filter (runs_call (t_base args)) tr) = nat (default 1 (t_n args)) \<and>
        length (filter (responses_call (t_base args)) tr) = nat (default 1 (t_n args))) \<and>
     list_all (\<lambda>x. \<not> isl x) (butlast (http_results jl srv [] tr)) \<and>
     (\<not> list_all (\<lambda>x. \<not> isl x) (http_results jl srv [] tr) \<longrightarrow> isl res) \<and>
     (sleep_error sl args \<noteq> None \<longrightarrow> length (filter (responses_call (t_base args)) tr) \<le> 1) \<and>
     py_get (responses_payload args i) ''input'' = Inr (PStr (prompt i)) \<and>
     suffix (''Request number: '' @ show_nat (i + 1) @ [CHR 0x0A]) (prompt i)"
proof -
  let ?b = "t_base args"
  let ?A = "t_agents_req args ?b"
  let ?ra = "fst (http_json jl srv ''POST'' (?b @ ''/v1/agents'') (req_payload ?A) [])"
  let ?N = "nat (default 1 (t_n args))"
  have inp: "py_get (responses_payload args i) ''input'' = Inr (PStr (prompt i))"
    by (simp add: responses_payload_def)
  from traffic_main_shape [OF assms]
  consider (none) "\<not> valid_args args" "tr = []" "\<exists>m. res = Inl (SystemExit m)"
    | (agent) "valid_args args" "tr = [?A]" "isl res"
        "res = outcome (stop_error jl ps sl srv args ?b [] tr)"
    | (budget) agent where "valid_args args" "?ra = Inr agent" "truthy (get_if_dict agent ''agent_id'')"
        "tr = [?A, t_budget_req args ?b (fmt ps (get_if_dict agent ''agent_id''))]" "isl res"
        "res = outcome (stop_error jl ps sl srv args ?b [] tr)"
    | (loop) agent new where "valid_args args" "?ra = Inr agent" "truthy (get_if_dict agent ''agent_id'')"
        "tr = [?A, t_budget_req args ?b (fmt ps (get_if_dict agent ''agent_id''))] @ new"
        "\<not> isl (fst (http_json jl srv ''POST''
             (?b @ ''/v1/agents/'' @ fmt ps (get_if_dict agent ''agent_id'') @ ''/budget'')
             (req_payload (t_budget_req args ?b (fmt ps (get_if_dict agent ''agent_id'')))) [?A]))"
        "loop_inv jl ps sl srv ?b (fmt ps (get_if_dict agent ''agent_id'')) args
           [?A, t_budget_req args ?b (fmt ps (get_if_dict agent ''agent_id''))] [0..<?N] res new"
    by blast
  then have main: "(\<not> valid_args args \<longrightarrow> tr = [] \<and> (\<exists>m. res = Inl (SystemExit m))) \<and>
     (valid_args args \<longrightarrow>
        tr \<noteq> [] \<and> tr ! 0 = ?A \<and> res = outcome (stop_error jl ps sl srv args ?b [] tr)) \<and>
     (2 \<le> length tr \<longrightarrow>
        (\<exists>agent. ?ra = Inr agent \<and> truthy (get_if_dict agent ''agent_id'') \<and>
           tr ! 1 = t_budget_req args ?b (fmt ps (get_if_dict agent ''agent_id'')) \<and>
           loop_trace jl ps srv args ?b (fmt ps (get_if_dict agent ''agent_id''))
             (take 2 tr) [0..<?N] (drop 2 tr))) \<and>
     paired (runs_call ?b) (responses_call ?b) (drop 2 tr) \<and>
     map req_payload (filter (responses_call ?b) tr) =
       map (\<lambda>i. Some (responses_payload args i)) [0..<length (filter (responses_call ?b) tr)] \<and>
     (res = Inr () \<longrightarrow>
        length (filter (runs_call ?b) tr) = ?N \<and> length (filter (responses_call ?b) tr) = ?N) \<and>
     list_all (\<lambda>x. \<not> isl x) (butlast (http_results jl srv [] tr)) \<and>
     (\<not> list_all (\<lambda>x. \<not> isl x) (http_results jl srv [] tr) \<longrightarrow> isl res) \<and>
     (sleep_error sl args \<noteq> None \<longrightarrow> length (filter (responses_call ?b) tr) \<le> 1)"
  proof cases
    case none
    then show ?thesis by auto
  next
    case agent
    then show ?thesis by (auto simp: t_call_facts2)
  next
    case budget
    from budget(1,2,3,5) show ?thesis
      unfolding budget(4) [symmetric] budget(6) [symmetric]
      unfolding budget(4)
      by (auto simp: t_call_facts2 t_req_sel)
  next
    case loop
    let ?aid = "fmt ps (get_if_dict agent ''agent_id'')"
    let ?B = "t_budget_req args ?b ?aid"
    from loop(1) have "[0..<?N] \<noteq> []" by (simp add: valid_args_def)
    with loop(6) have ne: "new \<noteq> []"
      and st: "res = outcome (stop_error jl ps sl srv args ?b [?A, ?B] new)"
      by (simp_all add: loop_inv_def)
    from st stop_error_append [OF ne, of jl ps sl srv args ?b "[]" "[?A, ?B]"] loop(4)
    have st': "res = outcome (stop_error jl ps sl srv args ?b [] tr)" by simp
    from loop(6) have k: "length (filter (responses_call ?b) new) \<le> ?N"
      by (simp add: loop_inv_def)
    from loop(6) have lt: "loop_trace jl ps srv args ?b ?aid [?A, ?B] [0..<?N] new"
      by (simp add: loop_inv_def)
    have p1: "valid_args args \<longrightarrow>
        tr \<noteq> [] \<and> tr ! 0 = ?A \<and> res = outcome (stop_error jl ps sl srv args ?b [] tr)"
      using st' loop(4) by simp
    have p2: "2 \<le> length tr \<longrightarrow>
        (\<exists>agent. ?ra = Inr agent \<and> truthy (get_if_dict agent ''agent_id'') \<and>
           tr ! 1 = t_budget_req args ?b (fmt ps (get_if_dict agent ''agent_id'')) \<and>
           loop_trace jl ps srv args ?b (fmt ps (get_if_dict agent ''agent_id''))
             (take 2 tr) [0..<?N] (drop 2 tr))"
      using loop(2,3,4) lt by auto
    from loop(4,5) loop(6) [unfolded loop_inv_def] take_upt_le [OF k]
    have p3: "paired (runs_call ?b) (responses_call ?b) (drop 2 tr) \<and>
       map req_payload (filter (responses_call ?b) tr) =
         map (\<lambda>i. Some (responses_payload args i)) [0..<length (filter (responses_call ?b) tr)] \<and>
       (res = Inr () \<longrightarrow>
          length (filter (runs_call ?b) tr) = ?N \<and> length (filter (responses_call ?b) tr) = ?N) \<and>
       list_all (\<lambda>x. \<not> isl x) (butlast (http_results jl srv [] tr)) \<and>
       (\<not> list_all (\<lambda>x. \<not> isl x) (http_results jl srv [] tr) \<longrightarrow> isl res) \<and>
       (sleep_error sl args \<noteq> None \<longrightarrow> length (filter (responses_call ?b) tr) \<le> 1)"
      using loop(2) by (auto simp: t_call_facts2 t_req_sel)
    from loop(1) p1 p2 p3 show ?thesis by blast
  qed
  from main inp prompt_suffix [of i] show ?thesis by blast
qed

lemmas traffic_run_defs = traffic_main_def one_request_def http_json_def io_bind_def io_return_def
  io_raise_def scripted_def ex_json_loads_def ex_py_str_def ex_traffic_args_def default_def
  rstrip_slash_def get_if_dict_def fmt_def Let_def sleep_step_def delay_def ex_py_sleep_def

lemma ex_t_base: "t_base (ex_traffic_args n topup) = ''http://h''"
  "t_base ((ex_traffic_args n topup)\<lparr>t_sleep_seconds := d\<rparr>) = ''http://h''"
  by (simp_all add: t_base_def ex_traffic_args_def default_def rstrip_slash_def)

lemma ex_traffic_two:
  "traffic_main ex_json_loads ex_py_str ex_py_sleep
     (scripted [Response ''{agent_id: a1}'', Response ''{}'', Response ''{run_id: r1}'',
                Response ''{}'', Response ''{run_id: r2}'', Response ''{}''])
     (ex_traffic_args 2 None) [] =
   (Inr (),
    [t_agents_req (ex_traffic_args 2 None) ''http://h'',
     t_budget_req (ex_traffic_args 2 None) ''http://h'' ''a1'',
     run_req ''http://h'' ''a1'', resp_req (ex_traffic_args 2 None) ''http://h'' ''a1'' ''r1'' 0,
     run_req ''http://h'' ''a1'', resp_req (ex_traffic_args 2 None) ''http://h'' ''a1'' ''r2'' 1])"
  by (simp add: traffic_run_defs t_agents_req_def t_budget_req_def run_req_def resp_req_def
      t_request_def upt_rec)

lemma ex_traffic_failed:
  "traffic_main ex_json_loads ex_py_str ex_py_sleep
     (scripted [Response ''{agent_id: a1}'', Response ''{}'', Response ''{run_id: r1}'',
                HTTPError 402 ''budget exceeded''])
     (ex_traffic_args 2 None) [] =
   (Inl (RuntimeError (''HTTP '' @ show_nat 402 @
           '' POST http://h/v1/agents/a1/runs/r1/openai/responses: budget exceeded'')),
    [t_agents_req (ex_traffic_args 2 None) ''http://h'',
     t_budget_req (ex_traffic_args 2 None) ''http://h'' ''a1'',
     run_req ''http://h'' ''a1'', resp_req (ex_traffic_args 2 None) ''http://h'' ''a1'' ''r1'' 0])"
  by (simp add: traffic_run_defs t_agents_req_def t_budget_req_def run_req_def resp_req_def
      t_request_def upt_rec)

lemma ex_traffic_sleep:
  "traffic_main ex_json_loads ex_py_str ex_py_sleep
     (scripted [Response ''{agent_id: a1}'', Response ''{}'', Response ''{run_id: r1}'',
                Response ''{}'', Response ''{run_id: r2}'', Response ''{}''])
     ((ex_traffic_args 2 None)\<lparr>t_sleep_seconds := Some (Finite (10 ^ 19))\<rparr>) [] =
   (Inl OverflowError,
    [t_agents_req (ex_traffic_args 2 None) ''http://h'',
     t_budget_req (ex_traffic_args 2 None) ''http://h'' ''a1'',
     run_req ''http://h'' ''a1'', resp_req (ex_traffic_args 2 None) ''http://h'' ''a1'' ''r1'' 0])"
  by (simp add: traffic_run_defs t_agents_req_def t_budget_req_def run_req_def resp_req_def
      t_request_def responses_payload_def upt_rec)

lemma ex_traffic_none:
  "traffic_main ex_json_loads ex_py_str ex_py_sleep (scripted []) (ex_traffic_args 0 None) [] =
     (Inl (SystemExit ''--n must be > 0''), [])"
  by (simp add: traffic_run_defs)

text \<open>
  Claim C3 as stated fails: with \<open>--n 2\<close> and a service that answers every request,
  the run ends normally and has sent two run-creation requests, one for each metered
  request, not one for the loop.
\<close>

theorem one_run_for_the_loop_counterexample:
  "fst (traffic_main ex_json_loads ex_py_str ex_py_sleep
     (scripted [Response ''{agent_id: a1}'', Response ''{}'', Response ''{run_id: r1}'',
                Response ''{}'', Response ''{run_id: r2}'', Response ''{}''])
     (ex_traffic_args 2 None) []) = Inr () \<and>
   length (filter (runs_call ''http://h'')
     (snd (traffic_main ex_json_loads ex_py_str ex_py_sleep
       (scripted [Response ''{agent_id: a1}'', Response ''{}'', Response ''{run_id: r1}'',
                  Response ''{}'', Response ''{run_id: r2}'', Response ''{}''])
       (ex_traffic_args 2 None) []))) = 2 \<and>
   length (filter (runs_call ''http://h'')
     (snd (traffic_main ex_json_loads ex_py_str ex_py_sleep
       (scripted [Response ''{agent_id: a1}'', Response ''{}'', Response ''{run_id: r1}'',
                  Response ''{}'', Response ''{run_id: r2}'', Response ''{}''])
       (ex_traffic_args 2 None) []))) \<noteq> 1"
  by (simp add: ex_traffic_two t_call_facts t_call_facts2)

text \<open>
  The examples. The run with two requests sends two of each kind, each metered request
  under the run created just before it (\<open>r1\<close>, then \<open>r2\<close>), and has no reason to
  stop. In a run whose first metered request is refused, that request is the last one
  sent and the run ends in the exception. In a run with a delay of \<open>1e19\<close> seconds
  the delay raises, and one metered request is sent, not two. With \<open>--n 0\<close> nothing
  is sent.
\<close>

theorem traffic_requests_witness:
  "length (filter (responses_call ''http://h'')
     [t_agents_req (ex_traffic_args 2 None) ''http://h'',
      t_budget_req (ex_traffic_args 2 None) ''http://h'' ''a1'',
      run_req ''http://h'' ''a1'', resp_req (ex_traffic_args 2 None) ''http://h'' ''a1'' ''r1'' 0,
      run_req ''http://h'' ''a1'', resp_req (ex_traffic_args 2 None) ''http://h'' ''a1'' ''r2'' 1]) = 2 \<and>
   loop_trace ex_json_loads ex_py_str
     (scripted [Response ''{agent_id: a1}'', Response ''{}'', Response ''{run_id: r1}'',
                Response ''{}'', Response ''{run_id: r2}'', Response ''{}''])
     (ex_traffic_args 2 None) ''http://h'' ''a1''
     [t_agents_req (ex_traffic_args 2 None) ''http://h'',
      t_budget_req (ex_traffic_args 2 None) ''http://h'' ''a1'']
     [0, 1]
     [run_req ''http://h'' ''a1'', resp_req (ex_traffic_args 2 None) ''http://h'' ''a1'' ''r1'' 0,
      run_req ''http://h'' ''a1'', resp_req (ex_traffic_args 2 None) ''http://h'' ''a1'' ''r2'' 1] \<and>
   stop_error ex_json_loads ex_py_str ex_py_sleep
     (scripted [Response ''{agent_id: a1}'', Response ''{}'', Response ''{run_id: r1}'',
                Response ''{}'', Response ''{run_id: r2}'', Response ''{}''])
     (ex_traffic_args 2 None) ''http://h'' []
     [t_agents_req (ex_traffic_args 2 None) ''http://h'',
      t_budget_req (ex_traffic_args 2 None) ''http://h'' ''a1'',
      run_req ''http://h'' ''a1'', resp_req (ex_traffic_args 2 None) ''http://h'' ''a1'' ''r1'' 0,
      run_req ''http://h'' ''a1'', resp_req (ex_traffic_args 2 None) ''http://h'' ''a1'' ''r2'' 1] = None \<and>
   \<not> list_all (\<lambda>x. \<not> isl x)
     (http_results ex_json_loads
        (scripted [Response ''{agent_id: a1}'', Response ''{}'', Response ''{run_id: r1}'',
                HTTPError 402 ''budget exceeded''])
        []
        [t_agents_req (ex_traffic_args 2 None) ''http://h'',
         t_budget_req (ex_traffic_args 2 None) ''http://h'' ''a1'',
         run_req ''http://h'' ''a1'', resp_req (ex_traffic_args 2 None) ''http://h'' ''a1'' ''r1'' 0]) \<and>
   isl (Inl (RuntimeError (''HTTP '' @ show_nat 402 @
           '' POST http://h/v1/agents/a1/runs/r1/openai/responses: budget exceeded'')) :: error + unit) \<and>
   sleep_error ex_py_sleep ((ex_traffic_args 2 None)\<lparr>t_sleep_seconds := Some (Finite (10 ^ 19))\<rparr>) =
     Some OverflowError \<and>
   length (filter (responses_call ''http://h'')
     [t_agents_req (ex_traffic_args 2 None) ''http://h'',
      t_budget_req (ex_traffic_args 2 None) ''http://h'' ''a1'',
      run_req ''http://h'' ''a1'', resp_req (ex_traffic_args 2 None) ''http://h'' ''a1'' ''r1'' 0]) \<le> 1 \<and>
   \<not> valid_args (ex_traffic_args 0 None) \<and>
   (\<exists>m. (Inl (SystemExit ''--n must be > 0'') :: error + unit) = Inl (SystemExit m))"
proof -
  note ok = traffic_requests [OF ex_traffic_two, unfolded ex_t_base]
  note bad = traffic_requests [OF ex_traffic_failed, unfolded ex_t_base]
  note slp = traffic_requests [OF ex_traffic_sleep, unfolded ex_t_base]
  note non = traffic_requests [OF ex_traffic_none, unfolded ex_t_base]
  have n: "nat (default 1 (t_n (ex_traffic_args 2 None))) = 2"
    by (simp add: ex_traffic_args_def default_def)
  have v: "valid_args (ex_traffic_args 2 None)"
    by (simp add: valid_args_def ex_traffic_args_def default_def)
  from ok [THEN conjunct2, THEN conjunct2, THEN conjunct2, THEN conjunct2, THEN conjunct2,
      THEN conjunct1, rule_format, OF refl] n
  have p1: "length (filter (responses_call ''http://h'')
     [t_agents_req (ex_traffic_args 2 None) ''http://h'',
      t_budget_req (ex_traffic_args 2 None) ''http://h'' ''a1'',
      run_req ''http://h'' ''a1'', resp_req (ex_traffic_args 2 None) ''http://h'' ''a1'' ''r1'' 0,
      run_req ''http://h'' ''a1'', resp_req (ex_traffic_args 2 None) ''http://h'' ''a1'' ''r2'' 1]) = 2"
    by simp
  have ra: "fst (http_json ex_json_loads
       (scripted [Response ''{agent_id: a1}'', Response ''{}'', Response ''{run_id: r1}'',
                Response ''{}'', Response ''{run_id: r2}'', Response ''{}''])
       ''POST'' (''http://h'' @ ''/v1/agents'')
       (req_payload (t_agents_req (ex_traffic_args 2 None) ''http://h'')) []) =
     Inr (PDict [(''agent_id'', PStr ''a1'')])"
    by (simp add: t_req_sel http_json_def scripted_def ex_json_loads_def Let_def)
  have u: "[0..<2] = [0, 1]" by (simp add: upt_rec)
  have aid: "fmt ex_py_str (get_if_dict (PDict [(''agent_id'', PStr ''a1'')]) ''agent_id'') = ''a1''"
    by (simp add: get_if_dict_def fmt_def)
  let ?tr = "[t_agents_req (ex_traffic_args 2 None) ''http://h'',
      t_budget_req (ex_traffic_args 2 None) ''http://h'' ''a1'',
      run_req ''http://h'' ''a1'', resp_req (ex_traffic_args 2 None) ''http://h'' ''a1'' ''r1'' 0,
      run_req ''http://h'' ''a1'', resp_req (ex_traffic_args 2 None) ''http://h'' ''a1'' ''r2'' 1]"
  have len: "2 \<le> length ?tr" by simp
  have tk: "take 2 ?tr = [t_agents_req (ex_traffic_args 2 None) ''http://h'',
      t_budget_req (ex_traffic_args 2 None) ''http://h'' ''a1'']"
    "drop 2 ?tr = [run_req ''http://h'' ''a1'',
      resp_req (ex_traffic_args 2 None) ''http://h'' ''a1'' ''r1'' 0,
      run_req ''http://h'' ''a1'', resp_req (ex_traffic_args 2 None) ''http://h'' ''a1'' ''r2'' 1]"
    by simp_all
  from ok [THEN conjunct2, THEN conjunct2, THEN conjunct1, rule_format, OF len, unfolded ra]
  obtain agent where ag: "Inr (PDict [(''agent_id'', PStr ''a1'')]) = (Inr agent :: error + pyval)"
    and lt: "loop_trace ex_json_loads ex_py_str
     (scripted [Response ''{agent_id: a1}'', Response ''{}'', Response ''{run_id: r1}'',
                Response ''{}'', Response ''{run_id: r2}'', Response ''{}''])
     (ex_traffic_args 2 None) ''http://h'' (fmt ex_py_str (get_if_dict agent ''agent_id''))
     (take 2 ?tr) [0..<nat (default 1 (t_n (ex_traffic_args 2 None)))] (drop 2 ?tr)"
    by blast
  from ag have ag': "agent = PDict [(''agent_id'', PStr ''a1'')]" by simp
  from lt
  have p2: "loop_trace ex_json_loads ex_py_str
     (scripted [Response ''{agent_id: a1}'', Response ''{}'', Response ''{run_id: r1}'',
                Response ''{}'', Response ''{run_id: r2}'', Response ''{}''])
     (ex_traffic_args 2 None) ''http://h'' ''a1''
     [t_agents_req (ex_traffic_args 2 None) ''http://h'',
      t_budget_req (ex_traffic_args 2 None) ''http://h'' ''a1'']
     [0, 1]
     [run_req ''http://h'' ''a1'', resp_req (ex_traffic_args 2 None) ''http://h'' ''a1'' ''r1'' 0,
      run_req ''http://h'' ''a1'', resp_req (ex_traffic_args 2 None) ''http://h'' ''a1'' ''r2'' 1]"
    unfolding ag' aid n u tk .
  from ok [THEN conjunct2, THEN conjunct1, rule_format, OF v]
  have p3: "stop_error ex_json_loads ex_py_str ex_py_sleep
     (scripted [Response ''{agent_id: a1}'', Response ''{}'', Response ''{run_id: r1}'',
                Response ''{}'', Response ''{run_id: r2}'', Response ''{}''])
     (ex_traffic_args 2 None) ''http://h'' []
     [t_agents_req (ex_traffic_args 2 None) ''http://h'',
      t_budget_req (ex_traffic_args 2 None) ''http://h'' ''a1'',
      run_req ''http://h'' ''a1'', resp_req (ex_traffic_args 2 None) ''http://h'' ''a1'' ''r1'' 0,
      run_req ''http://h'' ''a1'', resp_req (ex_traffic_args 2 None) ''http://h'' ''a1'' ''r2'' 1] = None"
    by (simp add: eq_commute [of "Inr ()"])
  have f: "\<not> list_all (\<lambda>x. \<not> isl x)
     (http_results ex_json_loads
        (scripted [Response ''{agent_id: a1}'', Response ''{}'', Response ''{run_id: r1}'',
                HTTPError 402 ''budget exceeded''])
        []
        [t_agents_req (ex_traffic_args 2 None) ''http://h'',
         t_budget_req (ex_traffic_args 2 None) ''http://h'' ''a1'',
         run_req ''http://h'' ''a1'', resp_req (ex_traffic_args 2 None) ''http://h'' ''a1'' ''r1'' 0])"
    by (simp add: t_req_sel req_sel http_json_def scripted_def ex_json_loads_def Let_def)
  from bad [THEN conjunct2, THEN conjunct2, THEN conjunct2, THEN conjunct2, THEN conjunct2,
      THEN conjunct2, THEN conjunct2, THEN conjunct1, rule_format, OF f]
  have p4: "isl (Inl (RuntimeError (''HTTP '' @ show_nat 402 @
           '' POST http://h/v1/agents/a1/runs/r1/openai/responses: budget exceeded'')) :: error + unit)" .
  have se: "sleep_error ex_py_sleep
       ((ex_traffic_args 2 None)\<lparr>t_sleep_seconds := Some (Finite (10 ^ 19))\<rparr>) = Some OverflowError"
    by (simp add: sleep_error_def delay_def default_def ex_py_sleep_def)
  then have se': "sleep_error ex_py_sleep
       ((ex_traffic_args 2 None)\<lparr>t_sleep_seconds := Some (Finite (10 ^ 19))\<rparr>) \<noteq> None"
    by simp
  from slp [THEN conjunct2, THEN conjunct2, THEN conjunct2, THEN conjunct2, THEN conjunct2,
      THEN conjunct2, THEN conjunct2, THEN conjunct2, THEN conjunct1, rule_format, OF se']
  have p5: "length (filter (responses_call ''http://h'')
     [t_agents_req (ex_traffic_args 2 None) ''http://h'',
      t_budget_req (ex_traffic_args 2 None) ''http://h'' ''a1'',
      run_req ''http://h'' ''a1'', resp_req (ex_traffic_args 2 None) ''http://h'' ''a1'' ''r1'' 0]) \<le> 1" .
  have nv: "\<not> valid_args (ex_traffic_args 0 None)"
    by (simp add: valid_args_def ex_traffic_args_def default_def)
  from non [THEN conjunct1, rule_format, OF nv]
  have p6: "\<exists>m. (Inl (SystemExit ''--n must be > 0'') :: error + unit) = Inl (SystemExit m)"
    by simp
  from p1 p2 p3 f p4 se p5 nv p6 show ?thesis by blast
qed

subsection \<open>The validation of the budget figures\<close>

lemma parse_args_Inr:
  assumes "parse_args pint args = Inr (limit, topup_opt)"
  shows "(\<exists>l. arg_limit args = Some l \<and> pint l = Some limit) \<and> 0 < limit \<and>
     (case arg_topup args of
        None \<Rightarrow> topup_opt = None
      | Some t \<Rightarrow> \<exists>tp. topup_opt = Some tp \<and> pint t = Some tp \<and> 0 < tp)"
  using assms
  by (auto simp: parse_args_def convert_opt_def parse_positive_int_def
      split: option.splits sum.splits if_splits)

lemma parse_args_nonpositive:
  assumes "arg_limit args = Some l" "pint l = Some v" "v \<le> 0"
  shows "\<exists>e. main jl pint srv args [] = (Inl e, [])"
proof -
  from assms have "convert_opt pint ''--limit'' (arg_limit args) =
      Inl (SystemExit ''argument --limit: must be > 0'')"
    by (simp add: convert_opt_def parse_positive_int_def arg_error_def)
  then have "\<exists>e. parse_args pint args = Inl e"
    by (simp add: parse_args_def split: sum.splits)
  then show ?thesis
    by (auto simp: main_def io_raise_def)
qed

lemma last_suffix: "suffix xs ys \<Longrightarrow> xs \<noteq> [] \<Longrightarrow> last ys = last xs"
  by (auto simp: suffix_def)

lemma not_budget_call:
  "runs_call b r \<Longrightarrow> \<not> budget_call b r" "responses_call b r \<Longrightarrow> \<not> budget_call b r"
  by (auto simp: runs_call_def responses_call_def budget_call_def dest!: last_suffix)

lemma paired_set: "paired A B xs \<Longrightarrow> x \<in> set xs \<Longrightarrow> A x \<or> B x"
  by (induction A B xs rule: paired.induct) auto

lemma bootstrap_budget_payload:
  assumes "main jl pint srv args [] = (res, tr)"
    and "r \<in> set tr" and "budget_call (rstrip_slash (arg_base_url args)) r"
  shows "\<exists>l limit topup. arg_limit args = Some l \<and> pint l = Some limit \<and> 0 < limit \<and> 0 < topup \<and>
       (case arg_topup args of None \<Rightarrow> topup = limit | Some t \<Rightarrow> pint t = Some topup) \<and>
       req_payload r = Some (PDict [(''hard_limit_cents'', PInt limit), (''topup_cents'', PInt topup)])"
proof -
  let ?b = "rstrip_slash (arg_base_url args)"
  let ?H = "health_request ?b"
  let ?A = "agents_request args ?b"
  from main_shape [OF assms(1)]
  consider (none) "tr = []" | (unhealthy) "tr = [?H]"
    | (prov) limit topup pre topup_opt where
        "parse_args pint args = Inr (limit, topup_opt)"
        "topup = (case topup_opt of Some t \<Rightarrow> t | None \<Rightarrow> limit)"
        "pre = [] \<or> pre = [?H]"
        "provision jl srv args ?b limit topup pre = (res, tr)"
    by blast
  then show ?thesis
  proof cases
    case none
    with assms(2) show ?thesis by simp
  next
    case unhealthy
    with assms(2,3) show ?thesis by (simp add: call_facts)
  next
    case prov
    from parse_args_Inr [OF prov(1)] prov(2)
    have args: "\<exists>l. arg_limit args = Some l \<and> pint l = Some limit" "0 < limit" "0 < topup"
      "case arg_topup args of None \<Rightarrow> topup = limit | Some t \<Rightarrow> pint t = Some topup"
      by (auto split: option.splits)
    from provision_shape [OF prov(4)]
    consider (a) "tr = pre @ [?A]"
      | (b) aid where "tr = pre @ [?A, budget_request args ?b aid limit topup] \<or>
          tr = pre @ [?A, budget_request args ?b aid limit topup, runs_request args ?b aid]"
      by blast
    then show ?thesis
    proof cases
      case a
      with assms(2,3) prov(3) show ?thesis by (auto simp: call_facts)
    next
      case b
      with assms(2,3) prov(3) have "r = budget_request args ?b aid limit topup"
        by (auto simp: call_facts)
      then have "req_payload r =
          Some (PDict [(''hard_limit_cents'', PInt limit), (''topup_cents'', PInt topup)])"
        by (simp add: budget_request_def)
      with args show ?thesis by blast
    qed
  qed
qed

lemma traffic_budget_payload:
  assumes "traffic_main jl ps sl srv args [] = (res, tr)"
    and "r \<in> set tr" and "budget_call (t_base args) r"
  shows "0 < default 500 (t_hard_limit_cents args) \<and> 0 \<le> default 500 (t_topup_cents args) \<and>
     req_payload r =
       Some (PDict [(''hard_limit_cents'', PInt (default 500 (t_hard_limit_cents args))),
                    (''topup_cents'', PInt (default 500 (t_topup_cents args)))])"
proof -
  let ?b = "t_base args"
  let ?A = "t_agents_req args ?b"
  from traffic_main_shape [OF assms(1)] assms(2)
  consider (agent) "tr = [?A]"
    | (sent) aid new where "valid_args args"
        "tr = [?A, t_budget_req args ?b aid] @ new"
        "paired (runs_call ?b) (responses_call ?b) new"
    by (auto simp: loop_inv_def)
  then show ?thesis
  proof cases
    case agent
    with assms(2,3) show ?thesis by (simp add: t_call_facts2)
  next
    case sent
    from sent(3) have "\<not> budget_call ?b x" if "x \<in> set new" for x
      using paired_set [OF sent(3) that] not_budget_call by blast
    with assms(2,3) sent(2) have "r = t_budget_req args ?b aid"
      by (auto simp: t_call_facts2)
    with sent(1) show ?thesis by (simp add: t_req_sel valid_args_def)
  qed
qed

lemma traffic_nonpositive_limit:
  assumes "default 500 (t_hard_limit_cents args) \<le> 0"
  shows "snd (traffic_main jl ps sl srv args []) = [] \<and> isl (fst (traffic_main jl ps sl srv args []))"
  using assms by (simp add: traffic_main_def Let_def io_raise_def)

text \<open>
  Claim C9, as amended. In the bootstrap script, every budget request carries a hard
  limit and a top-up that \<open>_parse_positive_int\<close> has accepted, both strictly positive,
  and the top-up is the hard limit when \<open>--topup\<close> is not given; a \<open>--limit\<close> that
  is not positive ends the run before any request. In the traffic generator, every
  budget request carries a strictly positive hard limit and a top-up that is not
  negative (each 500 when its option is not given); a hard limit that is not positive
  ends the run before any request.
\<close>

theorem budget_validation:
  "(main jl pint srv args [] = (res, tr) \<longrightarrow>
      (\<forall>r\<in>set tr. budget_call (rstrip_slash (arg_base_url args)) r \<longrightarrow>
         (\<exists>l limit topup. arg_limit args = Some l \<and> pint l = Some limit \<and> 0 < limit \<and> 0 < topup \<and>
            (case arg_topup args of None \<Rightarrow> topup = limit | Some t \<Rightarrow> pint t = Some topup) \<and>
            req_payload r =
              Some (PDict [(''hard_limit_cents'', PInt limit), (''topup_cents'', PInt topup)]))) \<and>
      ((\<exists>l v. arg_limit args = Some l \<and> pint l = Some v \<and> v \<le> 0) \<longrightarrow> tr = [] \<and> isl res)) \<and>
   (traffic_main jl ps sl srv targs [] = (res', tr') \<longrightarrow>
      (\<forall>r\<in>set tr'. budget_call (t_base targs) r \<longrightarrow>
         0 < default 500 (t_hard_limit_cents targs) \<and> 0 \<le> default 500 (t_topup_cents targs) \<and>
         req_payload r =
           Some (PDict [(''hard_limit_cents'', PInt (default 500 (t_hard_limit_cents targs))),
                        (''topup_cents'', PInt (default 500 (t_topup_cents targs)))])) \<and>
      (default 500 (t_hard_limit_cents targs) \<le> 0 \<longrightarrow> tr' = [] \<and> isl res'))"
proof (intro conjI impI ballI)
  fix r assume "main jl pint srv args [] = (res, tr)" "r \<in> set tr"
    "budget_call (rstrip_slash (arg_base_url args)) r"
  then show "\<exists>l limit topup. arg_limit args = Some l \<and> pint l = Some limit \<and> 0 < limit \<and> 0 < topup \<and>
            (case arg_topup args of None \<Rightarrow> topup = limit | Some t \<Rightarrow> pint t = Some topup) \<and>
            req_payload r =
              Some (PDict [(''hard_limit_cents'', PInt limit), (''topup_cents'', PInt topup)])"
    by (rule bootstrap_budget_payload)
next
  assume m: "main jl pint srv args [] = (res, tr)"
    and "\<exists>l v. arg_limit args = Some l \<and> pint l = Some v \<and> v \<le> 0"
  then obtain l v where lv: "arg_limit args = Some l" "pint l = Some v" "v \<le> 0" by blast
  have "\<exists>e. main jl pint srv args [] = (Inl e, [])"
    using lv by (rule parse_args_nonpositive)
  then obtain e where "main jl pint srv args [] = (Inl e, [])" by blast
  with m show "tr = []" "isl res" by auto
next
  fix r assume t: "traffic_main jl ps sl srv targs [] = (res', tr')" "r \<in> set tr'"
    "budget_call (t_base targs) r"
  from traffic_budget_payload [OF t]
  show "0 < default 500 (t_hard_limit_cents targs)" "0 \<le> default 500 (t_topup_cents targs)"
    "req_payload r =
           Some (PDict [(''hard_limit_cents'', PInt (default 500 (t_hard_limit_cents targs))),
                        (''topup_cents'', PInt (default 500 (t_topup_cents targs)))])"
    by simp_all
next
  assume t: "traffic_main jl ps sl srv targs [] = (res', tr')"
    and "default 500 (t_hard_limit_cents targs) \<le> 0"
  from traffic_nonpositive_limit [OF this(2), of jl ps sl srv] t
  show "tr' = []" "isl res'" by simp_all
qed

text \<open>
  Claim C9 as stated fails on the traffic generator: with \<open>--topup-cents 0\<close> the
  budget request is sent with a top-up of 0, and with \<open>--hard-limit-cents 700\<close> and no
  \<open>--topup-cents\<close> it is sent with a top-up of 500, not 700.
\<close>

theorem topup_positive_counterexample:
  "snd (traffic_main ex_json_loads ex_py_str ex_py_sleep
     (scripted [Response ''{agent_id: a1}'', Response ''{}'', Response ''{run_id: r1}'',
                Response ''{}''])
     (ex_traffic_args 1 (Some 0)) []) ! 1 =
   \<lparr>req_method = ''POST'', req_url = ''http://h/v1/agents/a1/budget'',
    req_headers = [(''Accept'', ''application/json''), (''Content-Type'', ''application/json'')],
    req_payload = Some (PDict [(''hard_limit_cents'', PInt 700), (''topup_cents'', PInt 0)])\<rparr> \<and>
   snd (traffic_main ex_json_loads ex_py_str ex_py_sleep
     (scripted [Response ''{agent_id: a1}'', Response ''{}'', Response ''{run_id: r1}'',
                Response ''{}''])
     (ex_traffic_args 1 None) []) ! 1 =
   \<lparr>req_method = ''POST'', req_url = ''http://h/v1/agents/a1/budget'',
    req_headers = [(''Accept'', ''application/json''), (''Content-Type'', ''application/json'')],
    req_payload = Some (PDict [(''hard_limit_cents'', PInt 700), (''topup_cents'', PInt 500)])\<rparr>"
  by (simp add: traffic_run_defs upt_rec)

text \<open>
  The example: the budget request of the healthy bootstrap run, a bootstrap run with
  \<open>--limit 0\<close>, and the budget request of the generator's run with two requests.
\<close>

theorem budget_validation_witness:
  "(\<exists>l limit topup. arg_limit ex_args = Some l \<and> ex_py_int l = Some limit \<and> 0 < limit \<and> 0 < topup \<and>
      (case arg_topup ex_args of None \<Rightarrow> topup = limit | Some t \<Rightarrow> ex_py_int t = Some topup) \<and>
      req_payload (budget_request ex_args ''http://h'' ''a1'' 5 5) =
        Some (PDict [(''hard_limit_cents'', PInt limit), (''topup_cents'', PInt topup)])) \<and>
   snd (main ex_json_loads ex_py_int (scripted []) (ex_args\<lparr>arg_limit := Some ''0''\<rparr>) []) = [] \<and>
   isl (fst (main ex_json_loads ex_py_int (scripted []) (ex_args\<lparr>arg_limit := Some ''0''\<rparr>) [])) \<and>
   req_payload (t_budget_req (ex_traffic_args 2 None) ''http://h'' ''a1'') =
     Some (PDict [(''hard_limit_cents'', PInt (default 500 (t_hard_limit_cents (ex_traffic_args 2 None)))),
                  (''topup_cents'', PInt (default 500 (t_topup_cents (ex_traffic_args 2 None))))])"
proof -
  have b: "rstrip_slash (arg_base_url ex_args) = ''http://h''"
    by (simp add: rstrip_slash_def ex_args_def)
  let ?B = "budget_request ex_args ''http://h'' ''a1'' 5 5"
  let ?tr = "[health_request ''http://h'', agents_request ex_args ''http://h'', ?B,
       runs_request ex_args ''http://h'' ''a1'']"
  have in1: "?B \<in> set ?tr" by simp
  have c1: "budget_call ''http://h'' ?B" by (simp add: call_facts)
  note v1 = budget_validation [where jl = ex_json_loads and pint = ex_py_int and args = ex_args
      and tr = ?tr, THEN conjunct1, rule_format, OF ex_main_healthy, THEN conjunct1,
      unfolded b, rule_format, OF in1 c1]
  let ?a0 = "ex_args\<lparr>arg_limit := Some ''0''\<rparr>"
  let ?m0 = "main ex_json_loads ex_py_int (scripted []) ?a0 []"
  have m0: "?m0 = (fst ?m0, snd ?m0)" by simp
  have z: "\<exists>l v. arg_limit ?a0 = Some l \<and> ex_py_int l = Some v \<and> v \<le> 0"
    by (simp add: ex_py_int_def)
  note v2 = budget_validation [where jl = ex_json_loads and pint = ex_py_int and args = ?a0,
      THEN conjunct1, rule_format, OF m0, THEN conjunct2, rule_format, OF z]
  let ?T = "t_budget_req (ex_traffic_args 2 None) ''http://h'' ''a1''"
  have c3: "budget_call ''http://h'' ?T" by (simp add: t_call_facts2)
  have in3: "?T \<in> set [t_agents_req (ex_traffic_args 2 None) ''http://h'', ?T,
     run_req ''http://h'' ''a1'', resp_req (ex_traffic_args 2 None) ''http://h'' ''a1'' ''r1'' 0,
     run_req ''http://h'' ''a1'', resp_req (ex_traffic_args 2 None) ''http://h'' ''a1'' ''r2'' 1]"
    by simp
  note v3 = budget_validation [where ps = ex_py_str and targs = "ex_traffic_args 2 None",
      THEN conjunct2, rule_format, OF ex_traffic_two, THEN conjunct1, unfolded ex_t_base,
      rule_format, OF in3 c3]
  from v1 v2 v3 show ?thesis by blast
qed

subsection \<open>Rounding to the nearest integer, ties to even\<close>

lemma rne_cases:
  "rne x = \<lfloor>x\<rfloor> \<and> (x - of_int \<lfloor>x\<rfloor> < 1 / 2 \<or> x - of_int \<lfloor>x\<rfloor> = 1 / 2 \<and> even \<lfloor>x\<rfloor>) \<or>
   rne x = \<lfloor>x\<rfloor> + 1 \<and> (1 / 2 < x - of_int \<lfloor>x\<rfloor> \<or> x - of_int \<lfloor>x\<rfloor> = 1 / 2 \<and> odd \<lfloor>x\<rfloor>)"
  by (auto simp: rne_def Let_def)

lemma rne_err: "\<bar>of_int (rne x) - x\<bar> \<le> 1 / 2"
proof -
  have "of_int \<lfloor>x\<rfloor> \<le> x" "x < of_int \<lfloor>x\<rfloor> + 1" by linarith+
  with rne_cases [of x] show ?thesis by auto
qed

lemma rne_tie_even:
  assumes "\<bar>of_int (rne x) - x\<bar> = 1 / 2"
  shows "even (rne x)"
proof -
  have "of_int \<lfloor>x\<rfloor> \<le> x" "x < of_int \<lfloor>x\<rfloor> + 1" by linarith+
  with rne_cases [of x] assms show ?thesis by auto
qed

lemma rne_tie:
  assumes "x - of_int \<lfloor>x\<rfloor> = 1 / 2"
  shows "rne x = (if even \<lfloor>x\<rfloor> then \<lfloor>x\<rfloor> else \<lfloor>x\<rfloor> + 1)"
  using assms by (simp add: rne_def Let_def)

lemma rne_near:
  assumes "\<bar>x - of_int k\<bar> < 1 / 2"
  shows "rne x = k"
proof -
  have e: "\<bar>of_int (rne x) - x\<bar> \<le> 1 / 2" by (rule rne_err)
  from assms e have "\<bar>(of_int (rne x) :: rat) - of_int k\<bar> < 1" by linarith
  then have "\<bar>(of_int (rne x - k) :: rat)\<bar> < 1" by simp
  then have "\<bar>rne x - k\<bar> < 1" by (metis of_int_abs of_int_less_1_iff)
  then show ?thesis by linarith
qed

subsection \<open>The binary exponent and the rounding to a double\<close>

lemma two_powi_nonneg: "0 \<le> e \<Longrightarrow> (2::rat) powi e = of_int (2 ^ nat e)"
  by (simp add: power_int_nonneg_exp)

lemma two_powi_neg: "0 \<le> k \<Longrightarrow> (2::rat) powi (- k) = 1 / 2 ^ nat k"
  by (simp add: power_int_minus_divide power_int_nonneg_exp)

lemma expo_ge1:
  assumes "1 \<le> \<bar>x\<bar>"
  shows "2 powi (expo x) \<le> \<bar>x\<bar> \<and> \<bar>x\<bar> < 2 powi (expo x + 1)"
proof -
  let ?n = "\<lfloor>\<bar>x\<bar>\<rfloor>"
  from assms have n: "1 \<le> ?n" by linarith
  then have pos: "0 < ?n" by simp
  from bitlen_bounds [OF pos]
  have lo: "2 ^ nat (bitlen ?n - 1) \<le> ?n" and hi: "?n < 2 ^ nat (bitlen ?n)" by simp_all
  have b1: "1 \<le> bitlen ?n" using pos by (auto simp: bitlen_alt_def)
  have e: "expo x = bitlen ?n - 1" using assms by (simp add: expo_def)
  have "(2::rat) powi (expo x) = of_int (2 ^ nat (bitlen ?n - 1))"
    using b1 by (simp add: e two_powi_nonneg)
  also have "\<dots> \<le> of_int ?n" using lo by (simp only: of_int_le_iff)
  also have "\<dots> \<le> \<bar>x\<bar>" by linarith
  finally have l: "2 powi (expo x) \<le> \<bar>x\<bar>" .
  have "?n + 1 \<le> 2 ^ nat (bitlen ?n)" using hi by simp
  then have "(of_int (?n + 1) :: rat) \<le> of_int (2 ^ nat (bitlen ?n))"
    by (simp only: of_int_le_iff)
  moreover have "\<bar>x\<bar> < of_int (?n + 1)" by linarith
  moreover have "(2::rat) powi (expo x + 1) = of_int (2 ^ nat (bitlen ?n))"
    using b1 by (simp add: e two_powi_nonneg)
  ultimately have "\<bar>x\<bar> < 2 powi (expo x + 1)" by linarith
  with l show ?thesis by simp
qed

lemma expo_lt1:
  assumes "x \<noteq> 0" "\<bar>x\<bar> < 1"
  shows "2 powi (expo x) \<le> \<bar>x\<bar> \<and> \<bar>x\<bar> < 2 powi (expo x + 1)"
proof -
  let ?y = "1 / \<bar>x\<bar>"
  let ?m = "\<lceil>?y\<rceil> - 1"
  from assms have xp: "0 < \<bar>x\<bar>" by simp
  with assms have y: "1 < ?y" by (simp add: field_simps)
  then have m: "0 < ?m" by linarith
  from bitlen_bounds [OF m]
  have lo: "2 ^ nat (bitlen ?m - 1) \<le> ?m" and hi: "?m < 2 ^ nat (bitlen ?m)" by simp_all
  have b1: "1 \<le> bitlen ?m" using m by (auto simp: bitlen_alt_def)
  have e: "expo x = - bitlen ?m" using assms by (simp add: expo_def)
  have my: "of_int ?m < ?y" "?y \<le> of_int (?m + 1)" by linarith+
  have c1: "(of_int (2 ^ nat (bitlen ?m)) :: rat) = 2 ^ nat (bitlen ?m)"
    and c2: "(of_int (2 ^ nat (bitlen ?m - 1)) :: rat) = 2 ^ nat (bitlen ?m - 1)"
    by simp_all
  have "?m + 1 \<le> 2 ^ nat (bitlen ?m)" using hi by simp
  then have "(of_int (?m + 1) :: rat) \<le> of_int (2 ^ nat (bitlen ?m))"
    by (simp only: of_int_le_iff)
  with my(2) have "?y \<le> of_int (2 ^ nat (bitlen ?m))" by linarith
  then have yle: "?y \<le> 2 ^ nat (bitlen ?m)" by (simp only: c1)
  have "(of_int (2 ^ nat (bitlen ?m - 1)) :: rat) \<le> of_int ?m"
    using lo by (simp only: of_int_le_iff)
  with my(1) have "of_int (2 ^ nat (bitlen ?m - 1)) < ?y" by linarith
  then have ygt: "2 ^ nat (bitlen ?m - 1) < ?y" by (simp only: c2)
  have p1: "(2::rat) powi (expo x) = 1 / 2 ^ nat (bitlen ?m)"
    using b1 by (simp add: e power_int_minus_divide power_int_nonneg_exp)
  have "expo x + 1 = - (bitlen ?m - 1)" by (simp add: e)
  moreover have "(2::rat) powi (- (bitlen ?m - 1)) = 1 / 2 ^ nat (bitlen ?m - 1)"
    using b1 by (intro two_powi_neg) simp
  ultimately have p2: "(2::rat) powi (expo x + 1) = 1 / 2 ^ nat (bitlen ?m - 1)"
    by (simp only:)
  from yle xp have "1 / 2 ^ nat (bitlen ?m) \<le> \<bar>x\<bar>"
    by (simp add: field_simps)
  moreover from ygt xp have "\<bar>x\<bar> < 1 / 2 ^ nat (bitlen ?m - 1)"
    by (simp add: field_simps)
  ultimately show ?thesis by (simp add: p1 p2)
qed

lemma expo_bounds:
  assumes "x \<noteq> 0"
  shows "2 powi (expo x) \<le> \<bar>x\<bar>" and "\<bar>x\<bar> < 2 powi (expo x + 1)"
  using assms expo_ge1 [of x] expo_lt1 [of x] by (cases "1 \<le> \<bar>x\<bar>"; simp)+

lemma expo_unique:
  assumes "2 powi e \<le> \<bar>x\<bar>" "\<bar>x\<bar> < 2 powi (e + 1)"
  shows "expo x = e"
proof -
  have "(0::rat) < 2 powi e" by simp
  with assms(1) have "0 < \<bar>x\<bar>" by linarith
  then have x: "x \<noteq> 0" by simp
  note b = expo_bounds [OF x]
  have "\<not> expo x < e"
  proof
    assume "expo x < e"
    then have "(2::rat) powi (expo x + 1) \<le> 2 powi e"
      by (intro power_int_increasing) auto
    with b assms show False by linarith
  qed
  moreover have "\<not> e < expo x"
  proof
    assume "e < expo x"
    then have "(2::rat) powi (e + 1) \<le> 2 powi (expo x)"
      by (intro power_int_increasing) auto
    with b assms show False by linarith
  qed
  ultimately show ?thesis by simp
qed

lemma fl_eq:
  assumes "2 powi e \<le> \<bar>x\<bar>" "\<bar>x\<bar> < 2 powi (e + 1)" "- 1022 \<le> e"
  shows "fl x = of_int (rne (x * 2 powi (52 - e))) * 2 powi (e - 52)"
proof -
  have "(0::rat) < 2 powi e" by simp
  with assms(1) have "0 < \<bar>x\<bar>" by linarith
  then have x: "x \<noteq> 0" by simp
  from expo_unique [OF assms(1,2)] assms(3) have "max (expo x) (- 1022) = e" by simp
  with x show ?thesis by (simp add: fl_def Let_def)
qed



lemma rne_of_int [simp]: "rne (of_int n) = n"
  by (rule rne_near) simp

lemma fl_0 [simp]: "fl 0 = 0"
  by (simp add: fl_def)

lemma to_double_0 [simp]: "to_double 0 = Finite 0"
  by (simp add: to_double_def)




subsection \<open>The report of the reconciliation script\<close>



















end
